theory Spec2Isabelle
  imports Main "HOL-Library.Multiset" "HOL-Library.Char_ord" "HOL-Library.List_Lexorder"
    "HOL-Library.Product_Lexorder" "HOL-Library.Option_ord"
begin

section \<open>Python strings and dates\<close>

text \<open>
  Python strings are modelled as \<^typ>\<open>string\<close>, one \<^typ>\<open>char\<close> per code point, which
  restricts the model to code points below 256. Strings compare as Python compares them:
  lexicographically by code point.
\<close>

definition is_digit :: "char \<Rightarrow> bool" where
  "is_digit c = (CHR ''0'' \<le> c \<and> c \<le> CHR ''9'')"

definition is_nonzero_digit :: "char \<Rightarrow> bool" where
  "is_nonzero_digit c = (CHR ''1'' \<le> c \<and> c \<le> CHR ''9'')"

definition digit_val :: "char \<Rightarrow> nat" where
  "digit_val c = of_char c - 48"

text \<open>\<^verbatim>\<open>int(s)\<close> on a string of decimal digits.\<close>

definition int_of_digits :: "string \<Rightarrow> int" where
  "int_of_digits s = foldl (\<lambda>n c. 10 * n + int (digit_val c)) 0 s"

text \<open>\<^verbatim>\<open>str.isspace\<close> on one character, for the code points below 256.\<close>

definition is_space :: "char \<Rightarrow> bool" where
  "is_space c = (of_char c \<in> {9, 10, 11, 12, 13, 28, 29, 30, 31, 32, 133, 160 :: nat})"

text \<open>\<^verbatim>\<open>s.strip()\<close>\<close>

definition strip :: "string \<Rightarrow> string" where
  "strip s = rev (dropWhile is_space (rev (dropWhile is_space s)))"

text \<open>\<^verbatim>\<open>s.lower()\<close>, for the code points below 256.\<close>

definition lower_char :: "char \<Rightarrow> char" where
  "lower_char c =
     (let n = (of_char c :: nat)
      in if (65 \<le> n \<and> n \<le> 90) \<or> (192 \<le> n \<and> n \<le> 222 \<and> n \<noteq> 215)
         then char_of (n + 32) else c)"

definition lower :: "string \<Rightarrow> string" where
  "lower s = map lower_char s"

text \<open>
  A \<^verbatim>\<open>datetime\<close> is the tuple (year, month, day, microsecond of the day); the
  lexicographic order of the tuple is the chronological order.
\<close>

type_synonym datetime = "int \<times> int \<times> int \<times> int"

definition datetime_min :: datetime where
  "datetime_min = (1, 1, 1, 0)"

definition datetime_max :: datetime where
  "datetime_max = (9999, 12, 31, 86399999999)"

definition is_leap :: "int \<Rightarrow> bool" where
  "is_leap y = (y mod 4 = 0 \<and> (y mod 100 \<noteq> 0 \<or> y mod 400 = 0))"

definition days_in_month :: "int \<Rightarrow> int \<Rightarrow> int" where
  "days_in_month y m =
     (if m = 2 then (if is_leap y then 29 else 28)
      else if m = 4 \<or> m = 6 \<or> m = 9 \<or> m = 11 then 30 else 31)"

text \<open>
  The directives of \<^verbatim>\<open>datetime.strptime(s, "%d-%m-%Y")\<close>, as the standard library
  matches them: \<^verbatim>\<open>%d\<close> is \<^verbatim>\<open>3[0-1]|[1-2]\d|0[1-9]|[1-9]| [1-9]\<close>, \<^verbatim>\<open>%m\<close> is
  \<^verbatim>\<open>1[0-2]|0[1-9]|[1-9]\<close> and \<^verbatim>\<open>%Y\<close> is four digits.
\<close>

fun day_token :: "string \<Rightarrow> bool" where
  "day_token [a, b] =
     ((a = CHR ''3'' \<and> (b = CHR ''0'' \<or> b = CHR ''1''))
      \<or> ((a = CHR ''1'' \<or> a = CHR ''2'') \<and> is_digit b)
      \<or> (a = CHR ''0'' \<and> is_nonzero_digit b)
      \<or> (a = CHR '' '' \<and> is_nonzero_digit b))"
| "day_token [a] = is_nonzero_digit a"
| "day_token _ = False"

fun month_token :: "string \<Rightarrow> bool" where
  "month_token [a, b] =
     ((a = CHR ''1'' \<and> (b = CHR ''0'' \<or> b = CHR ''1'' \<or> b = CHR ''2''))
      \<or> (a = CHR ''0'' \<and> is_nonzero_digit b))"
| "month_token [a] = is_nonzero_digit a"
| "month_token _ = False"

definition year_token :: "string \<Rightarrow> bool" where
  "year_token s = (length s = 4 \<and> list_all is_digit s)"

definition not_dash :: "char \<Rightarrow> bool" where
  "not_dash c = (c \<noteq> CHR ''-'')"

text \<open>
  \<^verbatim>\<open>datetime.strptime(s, "%d-%m-%Y")\<close>: \<open>None\<close> stands for the \<^verbatim>\<open>ValueError\<close> it raises.
  No token contains a dash, so the day is what precedes the first dash and the month what
  precedes the second; the year must end the string. The date must exist in the calendar
  and the year must be at least 1.
\<close>

definition strptime_dmy :: "string \<Rightarrow> datetime option" where
  "strptime_dmy s =
     (let d = takeWhile not_dash s in
      case dropWhile not_dash s of
        [] \<Rightarrow> None
      | _ # r1 \<Rightarrow>
          (let m = takeWhile not_dash r1 in
           case dropWhile not_dash r1 of
             [] \<Rightarrow> None
           | _ # y \<Rightarrow>
               if day_token d \<and> month_token m \<and> year_token y then
                 (let dd = int_of_digits (filter is_digit d);
                      mm = int_of_digits m;
                      yy = int_of_digits y
                  in if 1 \<le> yy \<and> dd \<le> days_in_month yy mm
                     then Some (yy, mm, dd, 0) else None)
               else None))"

section \<open>The language model\<close>

text \<open>
  Every agent calls the same chat model (\<^verbatim>\<open>get_llm()\<close>, temperature 0). The model is a
  parameter of the embedding: a function from the prompt it is sent to what the call
  produces, either an exception or the text of the reply.
\<close>

datatype prompt =
  Classification_prompt string
| Date_prompt string
| Encabezado_prompt string
| Secciones_prompt string string
| Compare_prompt string string

datatype completion = Raises string | Content string

type_synonym llm = "prompt \<Rightarrow> completion"

section \<open>VersioningAgent\<close>

record ocr_item =
  o_filename :: string
  o_text :: string

record documento =
  d_filename :: string
  categoria :: string
  d_fecha :: string
  d_text :: string

record version_entry =
  filename :: string
  fecha :: string
  version :: nat

text \<open>\<^verbatim>\<open>_to_dt\<close>: the parsed date, or \<open>None\<close> where the source returns \<^verbatim>\<open>None\<close>.\<close>

definition to_dt :: "string \<Rightarrow> datetime option" where
  "to_dt s = strptime_dmy s"

text \<open>The nested \<^verbatim>\<open>parse_fecha\<close> of \<^verbatim>\<open>assign_versions_from_ocr\<close>.\<close>

definition parse_fecha :: "string \<Rightarrow> datetime" where
  "parse_fecha fecha_str = (case strptime_dmy fecha_str of Some dt \<Rightarrow> dt | None \<Rightarrow> datetime_max)"

subsection \<open>Normalising the date the model replies\<close>

definition take_digits :: "nat \<Rightarrow> string \<Rightarrow> (string \<times> string) option" where
  "take_digits n s =
     (if n \<le> length s \<and> list_all is_digit (take n s) then Some (take n s, drop n s) else None)"

definition expect_dash :: "string \<Rightarrow> string option" where
  "expect_dash s = (case s of [] \<Rightarrow> None | c # r \<Rightarrow> if c = CHR ''-'' then Some r else None)"

text \<open>\<^verbatim>\<open>-(\d{4})\<close> at the head of the string.\<close>

definition match_anio :: "string \<Rightarrow> string option" where
  "match_anio s =
     (case expect_dash s of
        None \<Rightarrow> None
      | Some r \<Rightarrow> map_option fst (take_digits 4 r))"

text \<open>\<^verbatim>\<open>(\d{1,2})-(\d{4})\<close> at the head of the string, with \<open>n\<close> digits in the first group.\<close>

definition match_mes :: "nat \<Rightarrow> string \<Rightarrow> (string \<times> string) option" where
  "match_mes n s =
     (case take_digits n s of
        None \<Rightarrow> None
      | Some (mes, r) \<Rightarrow> map_option (\<lambda>anio. (mes, anio)) (match_anio r))"

text \<open>The greedy quantifier \<^verbatim>\<open>{1,2}\<close> tries two digits first and backtracks to one.\<close>

definition match_mes_anio :: "string \<Rightarrow> (string \<times> string) option" where
  "match_mes_anio s = (case match_mes 2 s of Some g \<Rightarrow> Some g | None \<Rightarrow> match_mes 1 s)"

definition match_dia :: "nat \<Rightarrow> string \<Rightarrow> (string \<times> string \<times> string) option" where
  "match_dia n s =
     (case take_digits n s of
        None \<Rightarrow> None
      | Some (dia, r) \<Rightarrow>
          (case expect_dash r of
             None \<Rightarrow> None
           | Some r' \<Rightarrow> map_option (\<lambda>(mes, anio). (dia, mes, anio)) (match_mes_anio r')))"

definition match_fecha :: "string \<Rightarrow> (string \<times> string \<times> string) option" where
  "match_fecha s = (case match_dia 2 s of Some g \<Rightarrow> Some g | None \<Rightarrow> match_dia 1 s)"

text \<open>\<^verbatim>\<open>re.search(r'(\d{1,2})-(\d{1,2})-(\d{4})', s)\<close>: the leftmost match, as its groups.\<close>

fun search_fecha :: "string \<Rightarrow> (string \<times> string \<times> string) option" where
  "search_fecha [] = None"
| "search_fecha (c # r) =
     (case match_fecha (c # r) of Some g \<Rightarrow> Some g | None \<Rightarrow> search_fecha r)"

text \<open>\<^verbatim>\<open>f"{n:02d}"\<close>, for the numbers below 100 that two digits can denote.\<close>

definition pad2 :: "int \<Rightarrow> string" where
  "pad2 n = [char_of (48 + n div 10), char_of (48 + n mod 10)]"

definition fecha_final :: "string \<Rightarrow> string" where
  "fecha_final fecha_texto =
     (if fecha_texto \<noteq> ''NO_FECHA'' then
        (case search_fecha fecha_texto of
           Some (dia, mes, anio) \<Rightarrow>
             pad2 (int_of_digits dia) @ ''-'' @ pad2 (int_of_digits mes) @ ''-'' @ anio
         | None \<Rightarrow> fecha_texto)
      else ''NO_FECHA'')"

subsection \<open>Classifying each document\<close>

text \<open>
  One iteration of the loop over \<^verbatim>\<open>ocr_results\<close>: an exception of either call to the
  model is caught and the document is filed under \<^verbatim>\<open>otros\<close> without a date.
\<close>

definition procesar_documento :: "llm \<Rightarrow> ocr_item \<Rightarrow> documento" where
  "procesar_documento model item =
     (let fallback = \<lparr>d_filename = o_filename item, categoria = ''otros'',
                      d_fecha = ''NO_FECHA'', d_text = o_text item\<rparr>
      in case model (Classification_prompt (o_text item)) of
           Raises _ \<Rightarrow> fallback
         | Content c \<Rightarrow>
             (case model (Date_prompt (o_text item)) of
                Raises _ \<Rightarrow> fallback
              | Content f \<Rightarrow>
                  \<lparr>d_filename = o_filename item, categoria = lower (strip c),
                   d_fecha = fecha_final (strip f), d_text = o_text item\<rparr>))"

definition documentos_procesados :: "llm \<Rightarrow> ocr_item list \<Rightarrow> documento list" where
  "documentos_procesados model ocr_results = map (procesar_documento model) ocr_results"

subsection \<open>Grouping by category\<close>

text \<open>
  A Python \<^verbatim>\<open>dict\<close> keeps its keys in insertion order: it is an association list with
  distinct keys. \<^verbatim>\<open>grupos.setdefault(cat, []).append(x)\<close> appends to the bucket of
  \<open>cat\<close>, which it creates at the end of the dictionary when missing.
\<close>

fun setdefault_append :: "'k \<Rightarrow> 'v \<Rightarrow> ('k \<times> 'v list) list \<Rightarrow> ('k \<times> 'v list) list" where
  "setdefault_append k v [] = [(k, [v])]"
| "setdefault_append k v ((k', vs) # g) =
     (if k' = k then (k', vs @ [v]) # g else (k', vs) # setdefault_append k v g)"

definition agrupar :: "('a \<Rightarrow> 'k) \<Rightarrow> 'a list \<Rightarrow> ('k \<times> 'a list) list" where
  "agrupar cat docs = foldl (\<lambda>grupos doc. setdefault_append (cat doc) doc grupos) [] docs"

subsection \<open>Ordering and numbering a category\<close>

text \<open>\<^verbatim>\<open>enumerate(ordenados, start=1)\<close> into the output entries.\<close>

definition numerar :: "('a \<Rightarrow> string) \<Rightarrow> ('a \<Rightarrow> string) \<Rightarrow> 'a list \<Rightarrow> version_entry list" where
  "numerar fn fe ordenados =
     map (\<lambda>(idx, d). \<lparr>filename = fn d, fecha = fe d, version = idx\<rparr>)
       (zip [1 ..< Suc (length ordenados)] ordenados)"

text \<open>The body of the loop over \<^verbatim>\<open>grupos.items()\<close> in \<^verbatim>\<open>assign_versions_from_ocr\<close>.\<close>

definition ordenar_ocr :: "documento list \<Rightarrow> documento list" where
  "ordenar_ocr docs =
     (let con_fecha = filter (\<lambda>d. d_fecha d \<noteq> ''NO_FECHA'') docs;
          sin_fecha = filter (\<lambda>d. d_fecha d = ''NO_FECHA'') docs
      in sort_key (\<lambda>d. parse_fecha (d_fecha d)) con_fecha @ sort_key d_filename sin_fecha)"

definition versionar_ocr :: "documento list \<Rightarrow> version_entry list" where
  "versionar_ocr docs = numerar d_filename d_fecha (ordenar_ocr docs)"

definition assign_versions_from_ocr ::
  "llm \<Rightarrow> ocr_item list \<Rightarrow> (string \<times> version_entry list) list" where
  "assign_versions_from_ocr model ocr_results =
     map (\<lambda>(cat, docs). (cat, versionar_ocr docs))
       (agrupar categoria (documentos_procesados model ocr_results))"

subsection \<open>The variant that takes classification and date results\<close>

record classification_item =
  c_filename :: string
  clasificacion :: "string option"
  c_fecha :: "string option"

record date_item =
  dt_filename :: string
  fecha_mas_antigua :: "string option"
  fecha_mas_reciente :: "string option"

record fechado =
  f_filename :: string
  f_fecha :: string

text \<open>\<^verbatim>\<open>d.get(key, "")\<close>\<close>

definition get_or_empty :: "string option \<Rightarrow> string" where
  "get_or_empty v = (case v of None \<Rightarrow> [] | Some s \<Rightarrow> s)"

text \<open>The dictionary comprehension: a later entry for the same file replaces an earlier one.\<close>

definition fechas_map :: "date_item list \<Rightarrow> string \<Rightarrow> (string \<times> string) option" where
  "fechas_map date_results =
     map_of (rev (map (\<lambda>d. (dt_filename d,
                             (get_or_empty (fecha_mas_antigua d), get_or_empty (fecha_mas_reciente d))))
                    date_results))"

text \<open>\<^verbatim>\<open>fm.get("fecha_mas_antigua") or item.get("fecha") or ""\<close>\<close>

definition fecha_de :: "date_item list \<Rightarrow> classification_item \<Rightarrow> string" where
  "fecha_de date_results item =
     (let antigua = (case fechas_map date_results (c_filename item) of
                       None \<Rightarrow> [] | Some (a, _) \<Rightarrow> a)
      in if antigua \<noteq> [] then antigua else get_or_empty (c_fecha item))"

definition categoria_de :: "classification_item \<Rightarrow> string" where
  "categoria_de item = (case clasificacion item of None \<Rightarrow> ''otros'' | Some c \<Rightarrow> c)"

definition fechar :: "date_item list \<Rightarrow> classification_item \<Rightarrow> fechado" where
  "fechar date_results item =
     \<lparr>f_filename = c_filename item, f_fecha = fecha_de date_results item\<rparr>"

definition grupos_de ::
  "classification_item list \<Rightarrow> date_item list \<Rightarrow> (string \<times> fechado list) list" where
  "grupos_de classification_results date_results =
     foldl (\<lambda>grupos item.
              setdefault_append (categoria_de item) (fechar date_results item) grupos)
       [] classification_results"

definition ordenar :: "fechado list \<Rightarrow> fechado list" where
  "ordenar docs =
     (let con_fecha = filter (\<lambda>d. to_dt (f_fecha d) \<noteq> None) docs;
          sin_fecha = filter (\<lambda>d. to_dt (f_fecha d) = None) docs
      in sort_key (\<lambda>d. (to_dt (f_fecha d), f_filename d)) con_fecha
         @ sort_key f_filename sin_fecha)"

definition versionar :: "fechado list \<Rightarrow> version_entry list" where
  "versionar docs = numerar f_filename f_fecha (ordenar docs)"

definition assign_versions ::
  "classification_item list \<Rightarrow> date_item list \<Rightarrow> (string \<times> version_entry list) list" where
  "assign_versions classification_results date_results =
     map (\<lambda>(cat, docs). (cat, versionar docs)) (grupos_de classification_results date_results)"

subsection \<open>The order of a chain, as a relation between two of its documents\<close>

text \<open>
  How an earlier document \<open>a\<close> of a chain of \<^verbatim>\<open>assign_versions_from_ocr\<close> stands to a
  later one \<open>b\<close>: if \<open>b\<close> has a date that parses, so has \<open>a\<close>, and it is not later; if
  \<open>a\<close> has no date, neither has \<open>b\<close>, and the filename of \<open>a\<close> is not the greater.
\<close>

definition precede_ocr :: "documento \<Rightarrow> documento \<Rightarrow> bool" where
  "precede_ocr a b \<longleftrightarrow>
     (to_dt (d_fecha b) \<noteq> None \<longrightarrow>
        to_dt (d_fecha a) \<noteq> None \<and> the (to_dt (d_fecha a)) \<le> the (to_dt (d_fecha b)))
     \<and> (d_fecha a = ''NO_FECHA'' \<longrightarrow> d_fecha b = ''NO_FECHA'' \<and> d_filename a \<le> d_filename b)"

text \<open>
  The same for a chain of \<^verbatim>\<open>assign_versions\<close>: dated documents first, by date and then
  by filename, and the documents whose date does not parse after them, by filename.
\<close>

definition precede :: "fechado \<Rightarrow> fechado \<Rightarrow> bool" where
  "precede a b \<longleftrightarrow>
     (to_dt (f_fecha b) \<noteq> None \<longrightarrow>
        to_dt (f_fecha a) \<noteq> None
        \<and> (to_dt (f_fecha a), f_filename a) \<le> (to_dt (f_fecha b), f_filename b))
     \<and> (to_dt (f_fecha a) = None \<longrightarrow> to_dt (f_fecha b) = None \<and> f_filename a \<le> f_filename b)"

section \<open>JSON values\<close>

text \<open>
  What \<^verbatim>\<open>json.loads\<close> returns. Numbers are restricted to integers. An object is a Python
  dictionary: an association list in insertion order.
\<close>

datatype json =
  JNull
| JBool bool
| JNum int
| JStr string
| JArr "json list"
| JObj "(string \<times> json) list"

type_synonym pydict = "(string \<times> json) list"

text \<open>
  \<^verbatim>\<open>json.loads\<close> itself is a parameter: a function from the text of a reply to the value
  it denotes, \<open>None\<close> where the text is no JSON document and \<^verbatim>\<open>json.loads\<close> raises.
\<close>

type_synonym loads = "string \<Rightarrow> json option"

text \<open>The truth value of a JSON value in a Python condition.\<close>

fun truthy :: "json \<Rightarrow> bool" where
  "truthy JNull = False"
| "truthy (JBool b) = b"
| "truthy (JNum n) = (n \<noteq> 0)"
| "truthy (JStr s) = (s \<noteq> [])"
| "truthy (JArr xs) = (xs \<noteq> [])"
| "truthy (JObj kvs) = (kvs \<noteq> [])"

subsection \<open>Dictionaries\<close>

text \<open>\<^verbatim>\<open>d[k] = v\<close>: an existing key keeps its place, a new key goes to the end.\<close>

fun dict_set :: "pydict \<Rightarrow> string \<Rightarrow> json \<Rightarrow> pydict" where
  "dict_set [] k v = [(k, v)]"
| "dict_set ((k', v') # d) k v = (if k' = k then (k, v) # d else (k', v') # dict_set d k v)"

text \<open>The dictionary that \<^verbatim>\<open>json.loads\<close> builds from the members of an object, in order.\<close>

definition py_dict :: "(string \<times> json) list \<Rightarrow> pydict" where
  "py_dict kvs = foldl (\<lambda>d (k, v). dict_set d k v) [] kvs"

section \<open>VersionComparerAgent\<close>

record comparison =
  cmp_de :: version_entry
  cmp_a :: version_entry
  diferencias :: pydict

text \<open>The default of the constructor, which every caller takes.\<close>

definition max_chars_doc :: nat where
  "max_chars_doc = 16000"

text \<open>
  \<^verbatim>\<open>{d.get("filename"): d.get("text") or "" for d in ocr_results}\<close>: a later item replaces
  an earlier one of the same filename.
\<close>

definition ocr_index :: "ocr_item list \<Rightarrow> string \<Rightarrow> string option" where
  "ocr_index ocr_results = map_of (rev (map (\<lambda>d. (o_filename d, o_text d)) ocr_results))"

text \<open>\<^verbatim>\<open>_find_text\<close>\<close>

definition find_text :: "(string \<Rightarrow> string option) \<Rightarrow> string \<Rightarrow> string" where
  "find_text idx fn = take max_chars_doc (case idx fn of None \<Rightarrow> [] | Some t \<Rightarrow> t)"

definition fallback :: pydict where
  "fallback = [(''cambios'', JArr []), (''resumen'', JStr [])]"

text \<open>
  \<^verbatim>\<open>_compare_texts\<close>. The model is not called when a text is empty; an exception of the
  call, a reply that is no JSON, and a reply that is not an object with the key
  \<^verbatim>\<open>cambios\<close> all give the fallback.
\<close>

definition compare_texts :: "llm \<Rightarrow> loads \<Rightarrow> string \<Rightarrow> string \<Rightarrow> pydict" where
  "compare_texts model json_loads texto_anterior texto_nueva =
     (if texto_anterior = [] \<or> texto_nueva = [] then fallback
      else case model (Compare_prompt (take 8000 texto_anterior) (take 8000 texto_nueva)) of
             Raises _ \<Rightarrow> fallback
           | Content raw \<Rightarrow>
               (case json_loads raw of
                  Some (JObj data) \<Rightarrow>
                    if ''cambios'' \<in> set (map fst data) then py_dict data else fallback
                | _ \<Rightarrow> fallback))"

text \<open>\<^verbatim>\<open>for i in range(len(xs) - 1)\<close> over \<open>xs[i]\<close> and \<open>xs[i + 1]\<close>.\<close>

definition consecutivos :: "'a list \<Rightarrow> ('a \<times> 'a) list" where
  "consecutivos xs = zip xs (tl xs)"

text \<open>The body of the loop over \<^verbatim>\<open>versioning_results.items()\<close>.\<close>

definition comparar_categoria ::
  "llm \<Rightarrow> loads \<Rightarrow> (string \<Rightarrow> string option) \<Rightarrow> version_entry list \<Rightarrow> comparison list" where
  "comparar_categoria model json_loads idx docs =
     (if docs = [] \<or> length docs < 2 then []
      else
        map (\<lambda>(version_actual, version_siguiente).
               \<lparr>cmp_de = version_actual, cmp_a = version_siguiente,
                diferencias =
                  compare_texts model json_loads
                    (find_text idx (filename version_actual))
                    (find_text idx (filename version_siguiente))\<rparr>)
          (consecutivos (sort_key version docs)))"

definition comparar_versiones ::
  "llm \<Rightarrow> loads \<Rightarrow> (string \<times> version_entry list) list \<Rightarrow> ocr_item list
     \<Rightarrow> (string \<times> comparison list) list" where
  "comparar_versiones model json_loads versioning_results ocr_results =
     map (\<lambda>(categoria, docs).
            (categoria, comparar_categoria model json_loads (ocr_index ocr_results) docs))
       versioning_results"

section \<open>ReportGeneratorAgent\<close>

text \<open>An exception is represented by its message, \<^verbatim>\<open>str(e)\<close>.\<close>

type_synonym 'a result = "string + 'a"

subsection \<open>Exceptions of attribute access\<close>

text \<open>\<^verbatim>\<open>type(v).__name__\<close>\<close>

fun type_name :: "json \<Rightarrow> string" where
  "type_name JNull = ''NoneType''"
| "type_name (JBool _) = ''bool''"
| "type_name (JNum _) = ''int''"
| "type_name (JStr _) = ''str''"
| "type_name (JArr _) = ''list''"
| "type_name (JObj _) = ''dict''"

text \<open>The message of the \<^verbatim>\<open>AttributeError\<close> for a missing attribute.\<close>

definition attribute_error :: "json \<Rightarrow> string \<Rightarrow> string" where
  "attribute_error v attr =
     [CHR 0x27] @ type_name v @ [CHR 0x27] @ '' object has no attribute '' @ [CHR 0x27] @ attr @ [CHR 0x27]"

subsection \<open>Calling the model for JSON\<close>

text \<open>
  \<^verbatim>\<open>_llm_json\<close>: the call to the model is outside the \<^verbatim>\<open>try\<close>, so its exception
  propagates; a reply that is no JSON, or no JSON object, is the empty dictionary.
\<close>

definition llm_json :: "llm \<Rightarrow> loads \<Rightarrow> prompt \<Rightarrow> pydict result" where
  "llm_json model json_loads p =
     (case model p of
        Raises e \<Rightarrow> Inl e
      | Content raw \<Rightarrow>
          Inr (case json_loads raw of Some (JObj data) \<Rightarrow> py_dict data | _ \<Rightarrow> []))"

text \<open>\<^verbatim>\<open>_extract_section_from_text\<close>\<close>

definition extract_section_from_text :: "llm \<Rightarrow> loads \<Rightarrow> string \<Rightarrow> string \<Rightarrow> pydict result" where
  "extract_section_from_text model json_loads seccion text =
     llm_json model json_loads (Secciones_prompt seccion (take 16000 text))"

text \<open>
  The header of a document: \<^verbatim>\<open>_llm_json(ENCABEZADO_PROMPT, text=...)\<close> and then
  \<^verbatim>\<open>.get("informesociedad", {})\<close>. The value under that key is used as a dictionary;
  \<open>attr\<close> is the first attribute the caller reads from it, which a value that is no
  dictionary does not have.
\<close>

definition extract_encabezado :: "llm \<Rightarrow> loads \<Rightarrow> string \<Rightarrow> string \<Rightarrow> pydict result" where
  "extract_encabezado model json_loads attr text =
     (case llm_json model json_loads (Encabezado_prompt text) of
        Inl e \<Rightarrow> Inl e
      | Inr res \<Rightarrow>
          (case map_of res ''informesociedad'' of
             None \<Rightarrow> Inr []
           | Some (JObj enc) \<Rightarrow> Inr (py_dict enc)
           | Some v \<Rightarrow> Inl (attribute_error v attr)))"

subsection \<open>Empty fields\<close>

text \<open>\<^verbatim>\<open>not value or (isinstance(value, str) and not value.strip())\<close>\<close>

definition is_empty_value :: "json \<Rightarrow> bool" where
  "is_empty_value v = (\<not> truthy v \<or> (case v of JStr s \<Rightarrow> strip s = [] | _ \<Rightarrow> False))"

text \<open>\<^verbatim>\<open>_get_empty_fields\<close>\<close>

definition get_empty_fields :: "pydict \<Rightarrow> string list" where
  "get_empty_fields data = map fst (filter (\<lambda>(key, v). is_empty_value v) data)"

subsection \<open>The newest document first, older ones for what is missing\<close>

text \<open>\<^verbatim>\<open>_parse_fecha\<close> of the report generator.\<close>

definition rg_parse_fecha :: "string \<Rightarrow> datetime" where
  "rg_parse_fecha fecha_str =
     (case strptime_dmy fecha_str of Some dt \<Rightarrow> dt | None \<Rightarrow> datetime_min)"

text \<open>
  \<^verbatim>\<open>sorted(xs, key=f, reverse=True)\<close>: descending, and documents of equal key keep
  their order.
\<close>

definition sorted_reverse :: "('a \<Rightarrow> 'k::linorder) \<Rightarrow> 'a list \<Rightarrow> 'a list" where
  "sorted_reverse f xs = rev (sort_key f (rev xs))"

text \<open>\<^verbatim>\<open>_ocr_text_by_filename\<close>\<close>

definition ocr_text_by_filename :: "ocr_item list \<Rightarrow> string \<Rightarrow> string" where
  "ocr_text_by_filename ocr_results fn =
     (case ocr_index ocr_results fn of None \<Rightarrow> [] | Some t \<Rightarrow> t)"

text \<open>
  The loop \<^verbatim>\<open>for field in empty_fields[:]\<close>: a field that the older document has with a
  value that is not blank is taken and leaves the list of empty fields. A value that is
  true and no string has no \<^verbatim>\<open>strip\<close>.
\<close>

fun llenar :: "pydict \<Rightarrow> string list \<Rightarrow> pydict \<times> string list \<Rightarrow> (pydict \<times> string list) result" where
  "llenar doc_result [] (res, empty_fields) = Inr (res, empty_fields)"
| "llenar doc_result (field # rest) (res, empty_fields) =
     (case map_of doc_result field of
        None \<Rightarrow> llenar doc_result rest (res, empty_fields)
      | Some v \<Rightarrow>
          if \<not> truthy v then llenar doc_result rest (res, empty_fields)
          else (case v of
                  JStr s \<Rightarrow>
                    if strip s \<noteq> []
                    then llenar doc_result rest (dict_set res field v, remove1 field empty_fields)
                    else llenar doc_result rest (res, empty_fields)
                | _ \<Rightarrow> Inl (attribute_error v ''strip'')))"

text \<open>
  The loop over the older documents, \<^verbatim>\<open>escritura_docs_sorted[1:]\<close>: it stops when no
  field is empty any more, and passes over a document without text.
\<close>

fun rellenar ::
  "(string \<Rightarrow> pydict result) \<Rightarrow> ocr_item list \<Rightarrow> version_entry list
     \<Rightarrow> pydict \<times> string list \<Rightarrow> (pydict \<times> string list) result" where
  "rellenar extract ocr_results [] (res, empty_fields) = Inr (res, empty_fields)"
| "rellenar extract ocr_results (doc # docs) (res, empty_fields) =
     (if empty_fields = [] then Inr (res, empty_fields)
      else
        (let doc_text = ocr_text_by_filename ocr_results (filename doc) in
         if doc_text = [] then rellenar extract ocr_results docs (res, empty_fields)
         else
           (case extract doc_text of
              Inl e \<Rightarrow> Inl e
            | Inr doc_result \<Rightarrow>
                (case llenar doc_result empty_fields (res, empty_fields) of
                   Inl e \<Rightarrow> Inl e
                 | Inr (res', empty_fields') \<Rightarrow>
                     if empty_fields' = [] then Inr (res', empty_fields')
                     else rellenar extract ocr_results docs (res', empty_fields')))))"

text \<open>\<^verbatim>\<open>versioning_results.get("escritura", [])\<close>\<close>

definition escrituras_de :: "(string \<times> version_entry list) list \<Rightarrow> version_entry list" where
  "escrituras_de versioning_results =
     (case map_of versioning_results ''escritura'' of None \<Rightarrow> [] | Some ds \<Rightarrow> ds)"

text \<open>
  What \<^verbatim>\<open>_extract_section_with_date_priority\<close> and
  \<^verbatim>\<open>_extract_encabezado_with_date_priority\<close> have in common. \<open>extract_latest\<close> reads the
  newest document and \<open>extract\<close> an older one; \<open>vacio\<close> is what is returned when the
  category \<^verbatim>\<open>escritura\<close> has no document or the newest one has no text. The sorted list
  is as long as the category, so its empty case is not reached.
\<close>

definition with_date_priority ::
  "(string \<Rightarrow> pydict result) \<Rightarrow> (string \<Rightarrow> pydict result) \<Rightarrow> pydict
     \<Rightarrow> (string \<times> version_entry list) list \<Rightarrow> ocr_item list \<Rightarrow> pydict result" where
  "with_date_priority extract_latest extract vacio versioning_results ocr_results =
     (let escritura_docs = escrituras_de versioning_results
      in if escritura_docs = [] then Inr vacio
         else
           (case sorted_reverse (\<lambda>x. rg_parse_fecha (fecha x)) escritura_docs of
              [] \<Rightarrow> Inr vacio
            | latest_doc # older \<Rightarrow>
                (let latest_text = ocr_text_by_filename ocr_results (filename latest_doc)
                 in if latest_text = [] then Inr vacio
                    else
                      (case extract_latest latest_text of
                         Inl e \<Rightarrow> Inl e
                       | Inr res \<Rightarrow>
                           (let empty_fields = get_empty_fields res in
                            if empty_fields \<noteq> [] then
                              map_sum id fst
                                (rellenar extract ocr_results older (res, empty_fields))
                            else Inr res)))))"

definition extract_section_with_date_priority ::
  "llm \<Rightarrow> loads \<Rightarrow> string \<Rightarrow> (string \<times> version_entry list) list \<Rightarrow> ocr_item list
     \<Rightarrow> pydict result" where
  "extract_section_with_date_priority model json_loads seccion versioning_results ocr_results =
     with_date_priority
       (extract_section_from_text model json_loads seccion)
       (extract_section_from_text model json_loads seccion)
       [] versioning_results ocr_results"

definition encabezado_vacio :: pydict where
  "encabezado_vacio = [(''razon_social'', JStr []), (''rut'', JStr []), (''nombre_fantasia'', JStr [])]"

definition extract_encabezado_with_date_priority ::
  "llm \<Rightarrow> loads \<Rightarrow> (string \<times> version_entry list) list \<Rightarrow> ocr_item list \<Rightarrow> pydict result" where
  "extract_encabezado_with_date_priority model json_loads versioning_results ocr_results =
     map_sum id (\<lambda>encabezado. [(''informesociedad'', JObj encabezado)])
       (with_date_priority
          (extract_encabezado model json_loads ''items'')
          (extract_encabezado model json_loads ''get'')
          encabezado_vacio versioning_results ocr_results)"

subsection \<open>Notions for the properties of reconciliation\<close>


text \<open>A record has no value for a field: the field is missing or empty.\<close>

definition sin_valor :: "pydict \<Rightarrow> string \<Rightarrow> bool" where
  "sin_valor r f = (case map_of r f of None \<Rightarrow> True | Some w \<Rightarrow> is_empty_value w)"


text \<open>
  A reply of the model that \<^verbatim>\<open>_llm_json\<close> turns into the empty dictionary: text that
  is no JSON, or JSON that is no object.
\<close>

definition malformed :: "loads \<Rightarrow> completion \<Rightarrow> bool" where
  "malformed jl c =
     (case c of
        Raises e \<Rightarrow> False
      | Content raw \<Rightarrow> (case jl raw of Some (JObj data) \<Rightarrow> False | _ \<Rightarrow> True))"

section \<open>The processing graph\<close>

subsection \<open>State and environment\<close>

record escritura_comparison =
  ec_categoria :: string
  ec_de :: version_entry
  ec_a :: version_entry
  ec_cambios :: json
  ec_resumen :: json

text \<open>
  \<^verbatim>\<open>ProcessingState\<close>, with the key \<^verbatim>\<open>legalization_results\<close> that
  \<^verbatim>\<open>create_initial_state\<close> adds. \<^verbatim>\<open>comparison_results\<close> maps a category to its
  comparisons, which have the shape \<^verbatim>\<open>paso_4_escritura_comparison\<close> gives them or the
  shape \<^verbatim>\<open>comparar_versiones\<close> gives them.
\<close>

record processing_state =
  carpeta :: string
  folder_path :: string
  ocr_results :: "ocr_item list"
  entity_results :: pydict
  classification_results :: "json list"
  vectorization_results :: pydict
  versioning_results :: "(string \<times> version_entry list) list"
  comparison_results :: "(string \<times> (escritura_comparison + comparison) list) list"
  legalization_results :: pydict
  report_results :: pydict
  error :: string

text \<open>
  What the stages reach outside the program, as parameters: the chat model and
  \<^verbatim>\<open>json.loads\<close>, the OCR of a folder, the file system, the environment variable
  \<^verbatim>\<open>EXTRACT_FROM_OCR\<close>, the work of the legalization agent, and the part of the report
  after its first four sections (legalization, powers and restrictions). An operation that
  can raise gives the message of its exception on the left.
\<close>

record env =
  get_llm :: "llm result"
  json_loads :: loads
  analyze_folder :: "string \<Rightarrow> ocr_item list result"
  makedirs :: "string \<Rightarrow> string option"
  write_json :: "string \<Rightarrow> string option"
  should_extract_from_ocr :: bool
  legalizacion :: "string \<Rightarrow> ocr_item list \<Rightarrow> (string \<times> version_entry list) list \<Rightarrow> pydict result"
  report_tail :: "(string \<times> version_entry list) list \<Rightarrow> ocr_item list \<Rightarrow> pydict result"

text \<open>\<^verbatim>\<open>os.path.join(a, b)\<close> on POSIX, for a first part that does not end with a slash.\<close>

definition path_join :: "string \<Rightarrow> string \<Rightarrow> string" where
  "path_join a b = (case b of c # _ \<Rightarrow> if c = CHR ''/'' then b else a @ ''/'' @ b | [] \<Rightarrow> a @ ''/'')"

definition create_initial_state :: "string \<Rightarrow> processing_state" where
  "create_initial_state c =
     \<lparr>carpeta = c, folder_path = path_join ''data'' c, ocr_results = [], entity_results = [],
      classification_results = [], vectorization_results = [], versioning_results = [],
      comparison_results = [], legalization_results = [], report_results = [], error = []\<rparr>"

text \<open>Sequencing two operations that can raise.\<close>

definition and_then :: "'a result \<Rightarrow> ('a \<Rightarrow> 'b result) \<Rightarrow> 'b result" where
  "and_then r f = (case r of Inl e \<Rightarrow> Inl e | Inr x \<Rightarrow> f x)"

text \<open>
  \<^verbatim>\<open>os.makedirs("results", exist_ok=True)\<close>, then writing the JSON file of the stage.
\<close>

definition guardar :: "env \<Rightarrow> string \<Rightarrow> 'a \<Rightarrow> 'a result" where
  "guardar ev results_file x =
     (case makedirs ev ''results'' of
        Some e \<Rightarrow> Inl e
      | None \<Rightarrow> (case write_json ev results_file of Some e \<Rightarrow> Inl e | None \<Rightarrow> Inr x))"

definition results_file :: "string \<Rightarrow> string \<Rightarrow> string" where
  "results_file c stage = path_join ''results'' (c @ ''_'' @ stage @ ''_results.json'')"

subsection \<open>The stages\<close>

text \<open>
  Each stage is its precondition check, the body of its \<^verbatim>\<open>try\<close> (a function named
  \<open>..._try\<close>, whose left result is the exception that the \<^verbatim>\<open>except\<close> clause catches),
  and the state it returns in each case. The result of a stage is on the left when an
  exception leaves the stage uncaught.
\<close>

definition paso_1_try :: "env \<Rightarrow> processing_state \<Rightarrow> ocr_item list result" where
  "paso_1_try ev state =
     (case makedirs ev ''results'' of
        Some e \<Rightarrow> Inl e
      | None \<Rightarrow>
          and_then (analyze_folder ev (folder_path state))
            (\<lambda>results.
               case write_json ev (results_file (carpeta state) ''ocr'') of
                 Some e \<Rightarrow> Inl e
               | None \<Rightarrow> Inr results))"

definition paso_1_ocr :: "env \<Rightarrow> processing_state \<Rightarrow> processing_state result" where
  "paso_1_ocr ev state =
     (case paso_1_try ev state of
        Inr results \<Rightarrow> Inr (state\<lparr>ocr_results := results\<rparr>)
      | Inl e \<Rightarrow> Inr (state\<lparr>error := ''Error en PASO 1: '' @ e\<rparr>))"

definition paso_2_try :: "env \<Rightarrow> processing_state \<Rightarrow> (string \<times> version_entry list) list result" where
  "paso_2_try ev state =
     and_then (get_llm ev)
       (\<lambda>model. guardar ev (results_file (carpeta state) ''versioning'')
                  (assign_versions_from_ocr model (ocr_results state)))"

definition paso_2_versioning :: "env \<Rightarrow> processing_state \<Rightarrow> processing_state result" where
  "paso_2_versioning ev state =
     (if ocr_results state = []
      then Inr (state\<lparr>error := ''No hay resultados de OCR para versionar documentos''\<rparr>)
      else case paso_2_try ev state of
             Inr versioning \<Rightarrow> Inr (state\<lparr>versioning_results := versioning\<rparr>)
           | Inl e \<Rightarrow> Inr (state\<lparr>error := ''Error en PASO 2: '' @ e\<rparr>))"

definition vec_results :: "string \<Rightarrow> string \<Rightarrow> pydict" where
  "vec_results c modo =
     [(''collection'', JStr (''legal_'' @ c)),
      (''documentos_procesados'', JNum 0),
      (''total_chunks'', JNum 0),
      (''modo'', JStr modo),
      (''mensaje'',
       JStr (''Vectorizaci'' @ [CHR 0xF3] @ ''n omitida - usando extracci'' @ [CHR 0xF3]
             @ ''n directa desde OCR''))]"

text \<open>This stage has no \<^verbatim>\<open>try\<close>: an exception of the file system leaves it.\<close>

definition paso_3_vectorization :: "env \<Rightarrow> processing_state \<Rightarrow> processing_state result" where
  "paso_3_vectorization ev state =
     (if ocr_results state = [] \<or> versioning_results state = []
      then Inr (state\<lparr>error := ''Faltan resultados (OCR o versionado) para vectorizar''\<rparr>)
      else
        and_then
          (guardar ev (results_file (carpeta state) ''vectorization'')
             (vec_results (carpeta state)
                (if should_extract_from_ocr ev then ''OCR_DIRECTO'' else ''SIN_VECTORIZACION'')))
          (\<lambda>vec. Inr (state\<lparr>vectorization_results := vec\<rparr>)))"

text \<open>
  The index of \<^verbatim>\<open>paso_4_escritura_comparison\<close>:
  \<^verbatim>\<open>{doc["filename"]: doc.get("text", "") for doc in ocr_results}\<close>, read with
  \<^verbatim>\<open>.get(filename, "")\<close>.
\<close>

definition texto_de :: "ocr_item list \<Rightarrow> string \<Rightarrow> string" where
  "texto_de ocr fn = (case ocr_index ocr fn of None \<Rightarrow> [] | Some t \<Rightarrow> t)"

text \<open>\<^verbatim>\<open>d.get(key, default)\<close> on a dictionary of JSON values.\<close>

definition dict_get :: "pydict \<Rightarrow> string \<Rightarrow> json \<Rightarrow> json" where
  "dict_get d k dflt = (case map_of d k of None \<Rightarrow> dflt | Some v \<Rightarrow> v)"

text \<open>
  The loop of \<^verbatim>\<open>paso_4_escritura_comparison\<close> over the consecutive pairs. A pair with a
  text missing is passed over. For the others a \<^verbatim>\<open>VersionComparerAgent\<close> is made, whose
  constructor calls \<^verbatim>\<open>get_llm()\<close> outside the inner \<^verbatim>\<open>try\<close>, and compares the chain of
  the two documents; that chain has two entries, so the agent returns one comparison for
  it, and the inner \<^verbatim>\<open>except\<close> has nothing to catch.
\<close>

fun comparar_pares ::
  "env \<Rightarrow> ocr_item list \<Rightarrow> (version_entry \<times> version_entry) list \<Rightarrow> escritura_comparison list result" where
  "comparar_pares ev ocr [] = Inr []"
| "comparar_pares ev ocr ((version_actual, version_siguiente) # pares) =
     (if texto_de ocr (filename version_actual) = [] \<or> texto_de ocr (filename version_siguiente) = []
      then comparar_pares ev ocr pares
      else
        and_then (get_llm ev)
          (\<lambda>model.
             let comparison = comparar_versiones model (json_loads ev)
                                [(''escritura'', [version_actual, version_siguiente])] ocr;
                 escritura = (case map_of comparison ''escritura'' of None \<Rightarrow> [] | Some cs \<Rightarrow> cs)
             in case escritura of
                  [] \<Rightarrow> comparar_pares ev ocr pares
                | comparacion_simple # _ \<Rightarrow>
                    and_then (comparar_pares ev ocr pares)
                      (\<lambda>resto.
                         Inr (\<lparr>ec_categoria = ''escritura'', ec_de = version_actual,
                               ec_a = version_siguiente,
                               ec_cambios = dict_get (diferencias comparacion_simple) ''cambios'' (JArr []),
                               ec_resumen = dict_get (diferencias comparacion_simple) ''resumen'' (JStr [])\<rparr>
                              # resto))))"

definition paso_4_try ::
  "env \<Rightarrow> processing_state \<Rightarrow> (string \<times> (escritura_comparison + comparison) list) list result" where
  "paso_4_try ev state =
     (let escrituras = escrituras_de (versioning_results state)
      in if escrituras = [] then Inr []
         else
           and_then
             (comparar_pares ev (ocr_results state) (consecutivos (sort_key version escrituras)))
             (\<lambda>comparisons.
                guardar ev (results_file (carpeta state) ''escritura_comparison'')
                  [(''escritura'', map Inl comparisons)]))"

definition paso_4_escritura_comparison :: "env \<Rightarrow> processing_state \<Rightarrow> processing_state result" where
  "paso_4_escritura_comparison ev state =
     (if versioning_results state = []
      then Inr (state\<lparr>error := ''No hay resultados de versionado para comparar''\<rparr>)
      else case paso_4_try ev state of
             Inr comparisons \<Rightarrow> Inr (state\<lparr>comparison_results := comparisons\<rparr>)
           | Inl e \<Rightarrow> Inr (state\<lparr>error := ''Error en PASO 4: '' @ e\<rparr>))"

definition paso_5_try :: "env \<Rightarrow> processing_state \<Rightarrow> pydict result" where
  "paso_5_try ev state =
     and_then (legalizacion ev (carpeta state) (ocr_results state) (versioning_results state))
       (\<lambda>results. guardar ev (results_file (carpeta state) ''legalizacion'') results)"

text \<open>A stage that lacks its input returns the state as it is, without an error.\<close>

definition paso_5_legalizacion :: "env \<Rightarrow> processing_state \<Rightarrow> processing_state result" where
  "paso_5_legalizacion ev state =
     (if ocr_results state = [] \<or> versioning_results state = [] then Inr state
      else case paso_5_try ev state of
             Inr results \<Rightarrow> Inr (state\<lparr>legalization_results := results\<rparr>)
           | Inl e \<Rightarrow> Inr (state\<lparr>error := ''Error en PASO 5 (legalizaci'' @ [CHR 0xF3] @ ''n): '' @ e\<rparr>))"



text \<open>
  \<^verbatim>\<open>generate_complete_report\<close>: the header and the three sections read from the chain of
  \<^verbatim>\<open>escritura\<close>, then the rest of the report.
\<close>

definition generate_complete_report ::
  "env \<Rightarrow> llm \<Rightarrow> (string \<times> version_entry list) list \<Rightarrow> ocr_item list \<Rightarrow> pydict result" where
  "generate_complete_report ev model versioning ocr =
     and_then (extract_encabezado_with_date_priority model (json_loads ev) versioning ocr)
       (\<lambda>encabezado.
     and_then (extract_section_with_date_priority model (json_loads ev) ''constitucion'' versioning ocr)
       (\<lambda>seccion_const.
     and_then (extract_section_with_date_priority model (json_loads ev) ''capital_social'' versioning ocr)
       (\<lambda>seccion_capital.
     and_then (extract_section_with_date_priority model (json_loads ev) ''administracion'' versioning ocr)
       (\<lambda>seccion_admin.
     and_then (report_tail ev versioning ocr)
       (\<lambda>tail_sections.
          Inr (encabezado
               @ [(''seccion_constitucion'', JObj seccion_const),
                  (''seccion_capital_social'', JObj seccion_capital),
                  (''seccion_administracion'', JObj seccion_admin)]
               @ tail_sections))))))"

definition paso_8_try :: "env \<Rightarrow> processing_state \<Rightarrow> pydict result" where
  "paso_8_try ev state =
     and_then (get_llm ev)
       (\<lambda>model.
          and_then (generate_complete_report ev model (versioning_results state) (ocr_results state))
            (\<lambda>report. guardar ev (results_file (carpeta state) ''report'') report))"

definition has_data :: "processing_state \<Rightarrow> bool" where
  "has_data state =
     (versioning_results state \<noteq> [] \<or> comparison_results state \<noteq> []
      \<or> legalization_results state \<noteq> [] \<or> ocr_results state \<noteq> [])"

definition paso_8_report_generation :: "env \<Rightarrow> processing_state \<Rightarrow> processing_state result" where
  "paso_8_report_generation ev state =
     (if versioning_results state = []
      then Inr (state\<lparr>error := ''No hay resultados de versionado para generar informe''\<rparr>)
      else if \<not> has_data state
      then Inr (state\<lparr>error := ''No hay datos suficientes para generar el informe''\<rparr>)
      else case paso_8_try ev state of
             Inr report \<Rightarrow> Inr (state\<lparr>report_results := report\<rparr>)
           | Inl e \<Rightarrow> Inr (state\<lparr>error := ''Error en PASO 8: '' @ e\<rparr>))"

subsection \<open>The graph\<close>

datatype node =
  Paso_1_ocr
| Paso_2_versioning
| Paso_3_vectorization
| Paso_4_escritura_comparison
| Paso_5_legalizacion
| Paso_8_report_generation

text \<open>The function that \<^verbatim>\<open>add_node\<close> registers under each name.\<close>

fun run_node :: "env \<Rightarrow> node \<Rightarrow> processing_state \<Rightarrow> processing_state result" where
  "run_node ev Paso_1_ocr = paso_1_ocr ev"
| "run_node ev Paso_2_versioning = paso_2_versioning ev"
| "run_node ev Paso_3_vectorization = paso_3_vectorization ev"
| "run_node ev Paso_4_escritura_comparison = paso_4_escritura_comparison ev"
| "run_node ev Paso_5_legalizacion = paso_5_legalizacion ev"
| "run_node ev Paso_8_report_generation = paso_8_report_generation ev"

text \<open>The edges of \<^verbatim>\<open>build_processing_graph\<close>; \<open>None\<close> is \<^verbatim>\<open>END\<close>.\<close>

fun next_node :: "node \<Rightarrow> node option" where
  "next_node Paso_1_ocr = Some Paso_2_versioning"
| "next_node Paso_2_versioning = Some Paso_3_vectorization"
| "next_node Paso_3_vectorization = Some Paso_4_escritura_comparison"
| "next_node Paso_4_escritura_comparison = Some Paso_5_legalizacion"
| "next_node Paso_5_legalizacion = Some Paso_8_report_generation"
| "next_node Paso_8_report_generation = None"

definition entry_point :: node where
  "entry_point = Paso_1_ocr"

fun distance_to_end :: "node \<Rightarrow> nat" where
  "distance_to_end Paso_1_ocr = 5"
| "distance_to_end Paso_2_versioning = 4"
| "distance_to_end Paso_3_vectorization = 3"
| "distance_to_end Paso_4_escritura_comparison = 2"
| "distance_to_end Paso_5_legalizacion = 1"
| "distance_to_end Paso_8_report_generation = 0"

text \<open>
  Running the compiled graph from a node: the node runs on the state, and its edge is
  followed whatever the state it returns holds. The second component is the list of the
  nodes that have run. An exception that leaves a node ends the run.
\<close>

function invoke_from ::
  "env \<Rightarrow> node \<Rightarrow> processing_state \<Rightarrow> node list \<Rightarrow> processing_state result \<times> node list" where
  "invoke_from ev n state visited =
     (case run_node ev n state of
        Inl e \<Rightarrow> (Inl e, visited @ [n])
      | Inr state' \<Rightarrow>
          (case next_node n of
             None \<Rightarrow> (Inr state', visited @ [n])
           | Some n' \<Rightarrow> invoke_from ev n' state' (visited @ [n])))"
  by pat_completeness auto
termination
  by (relation "measure (\<lambda>(ev, n, state, visited). distance_to_end n)")
    (auto elim: next_node.elims)

definition invoke :: "env \<Rightarrow> processing_state \<Rightarrow> processing_state result \<times> node list" where
  "invoke ev state = invoke_from ev entry_point state []"

subsection \<open>What the comparison stage appends for a pair\<close>

text \<open>
  A pair of entries whose texts are both there, and the entry that the loop of
  \<^verbatim>\<open>paso_4_escritura_comparison\<close> appends to \<^verbatim>\<open>comparison_results\<close> for such a pair.
\<close>

definition con_textos :: "ocr_item list \<Rightarrow> version_entry \<times> version_entry \<Rightarrow> bool" where
  "con_textos ocr = (\<lambda>(x, y). texto_de ocr (filename x) \<noteq> [] \<and> texto_de ocr (filename y) \<noteq> [])"

definition entrada ::
  "llm \<Rightarrow> loads \<Rightarrow> ocr_item list \<Rightarrow> version_entry \<times> version_entry \<Rightarrow> escritura_comparison" where
  "entrada model jl ocr = (\<lambda>(x, y).
     \<lparr>ec_categoria = ''escritura'', ec_de = x, ec_a = y,
      ec_cambios =
        dict_get (compare_texts model jl (find_text (ocr_index ocr) (filename x))
                    (find_text (ocr_index ocr) (filename y))) ''cambios'' (JArr []),
      ec_resumen =
        dict_get (compare_texts model jl (find_text (ocr_index ocr) (filename x))
                    (find_text (ocr_index ocr) (filename y))) ''resumen'' (JStr [])\<rparr>)"

subsection \<open>When a stage fails\<close>









section \<open>A small run, for the examples\<close>

text \<open>
  A model that files every document under \<^verbatim>\<open>escritura\<close> with the date 10-01-2020,
  answers an extraction prompt with the text it was given, and answers a comparison with
  one fixed reply; and a \<^verbatim>\<open>json.loads\<close> that knows these replies.
\<close>

definition ejemplo_model :: llm where
  "ejemplo_model p =
     (case p of
        Classification_prompt t \<Rightarrow> Content ''escritura''
      | Date_prompt t \<Rightarrow> Content ''10-01-2020''
      | Encabezado_prompt t \<Rightarrow> Content t
      | Secciones_prompt s t \<Rightarrow> Content t
      | Compare_prompt t1 t2 \<Rightarrow> Content ''un cambio'')"

definition ejemplo_loads :: loads where
  "ejemplo_loads raw =
     (if raw = ''un cambio''
      then Some (JObj [(''cambios'', JArr [JStr ''capital'']), (''resumen'', JStr ''aumento'')])
      else if raw = ''acme''
      then Some (JObj [(''razon_social'', JStr ''Acme''), (''rut'', JStr [])])
      else if raw = ''acme corp''
      then Some (JObj [(''razon_social'', JStr ''Acme Corp''), (''rut'', JStr ''  '')])
      else if raw = ''rut''
      then Some (JObj [(''razon_social'', JStr ''Otra''), (''rut'', JStr ''76.154.106-4'')])
      else if raw = ''sin rut''
      then Some (JObj [(''razon_social'', JStr ''Acme Corp'')])
      else if raw = ''encabezado''
      then Some (JObj [(''informesociedad'',
                        JObj [(''razon_social'', JStr ''Acme''), (''rut'', JStr ''76.154.106-4''),
                              (''nombre_fantasia'', JStr [])])])
      else None)"

definition ejemplo_ocr :: "ocr_item list" where
  "ejemplo_ocr =
     [\<lparr>o_filename = ''a.pdf'', o_text = ''rut''\<rparr>,
      \<lparr>o_filename = ''b.pdf'', o_text = []\<rparr>,
      \<lparr>o_filename = ''c.pdf'', o_text = ''acme''\<rparr>,
      \<lparr>o_filename = ''d.pdf'', o_text = ''acme corp''\<rparr>]"

definition ejemplo_chain :: "version_entry list" where
  "ejemplo_chain =
     [\<lparr>filename = ''a.pdf'', fecha = ''05-03-2018'', version = 1\<rparr>,
      \<lparr>filename = ''b.pdf'', fecha = ''05-03-2019'', version = 2\<rparr>,
      \<lparr>filename = ''c.pdf'', fecha = ''10-01-2020'', version = 3\<rparr>,
      \<lparr>filename = ''d.pdf'', fecha = ''11-01-2020'', version = 4\<rparr>]"

definition ejemplo_env :: env where
  "ejemplo_env =
     \<lparr>get_llm = Inr ejemplo_model, json_loads = ejemplo_loads,
      analyze_folder = (\<lambda>folder. Inr ejemplo_ocr),
      makedirs = (\<lambda>dir. None), write_json = (\<lambda>file. None),
      should_extract_from_ocr = True,
      legalizacion = (\<lambda>c ocr versioning. Inr [(''poderes'', JArr [])]),
      report_tail = (\<lambda>versioning ocr. Inr [(''legalizacion'', JObj [])])\<rparr>"

text \<open>The same surroundings, with a folder that \<^verbatim>\<open>analyze_folder\<close> does not find.\<close>

definition ejemplo_env_sin_carpeta :: env where
  "ejemplo_env_sin_carpeta =
     ejemplo_env\<lparr>analyze_folder := \<lambda>folder. Inl (''Directorio no existe: '' @ folder)\<rparr>"

text \<open>The same surroundings, with a folder in which the OCR finds no document.\<close>

definition ejemplo_env_vacio :: env where
  "ejemplo_env_vacio = ejemplo_env\<lparr>analyze_folder := \<lambda>folder. Inr []\<rparr>"

section \<open>Category partitioner\<close>

lemma map_of_setdefault_append:
  "map_of (setdefault_append k v g) k' =
     (if k' = k then Some ((case map_of g k of None \<Rightarrow> [] | Some vs \<Rightarrow> vs) @ [v])
      else map_of g k')"
  by (induction k v g rule: setdefault_append.induct) auto

lemma keys_setdefault_append:
  "map fst (setdefault_append k v g) =
     (if k \<in> set (map fst g) then map fst g else map fst g @ [k])"
  by (induction k v g rule: setdefault_append.induct) auto

lemma distinct_setdefault_append:
  "distinct (map fst g) \<Longrightarrow> distinct (map fst (setdefault_append k v g))"
  by (simp add: keys_setdefault_append)

lemma mset_setdefault_append:
  "mset (concat (map snd (setdefault_append k v g))) = add_mset v (mset (concat (map snd g)))"
  by (induction k v g rule: setdefault_append.induct) auto

text \<open>
  The loop that fills \<^verbatim>\<open>grupos\<close>, started from any dictionary \<open>g\<close>: the keys stay
  distinct, the bucket of every category grows by the documents of that category in input
  order, and nothing else is added.
\<close>

lemma foldl_setdefault_append:
  assumes "distinct (map fst g)"
  shows "distinct (map fst (foldl (\<lambda>grupos doc. setdefault_append (cat doc) (f doc) grupos) g docs))
    \<and> (\<forall>c. (case map_of (foldl (\<lambda>grupos doc. setdefault_append (cat doc) (f doc) grupos) g docs) c
              of None \<Rightarrow> [] | Some vs \<Rightarrow> vs) =
            (case map_of g c of None \<Rightarrow> [] | Some vs \<Rightarrow> vs) @ map f (filter (\<lambda>d. cat d = c) docs))
    \<and> (\<forall>c. map_of (foldl (\<lambda>grupos doc. setdefault_append (cat doc) (f doc) grupos) g docs) c = None
            \<longleftrightarrow> map_of g c = None \<and> filter (\<lambda>d. cat d = c) docs = [])
    \<and> mset (concat (map snd (foldl (\<lambda>grupos doc. setdefault_append (cat doc) (f doc) grupos) g docs)))
        = mset (concat (map snd g)) + mset (map f docs)"
  using assms
proof (induction docs arbitrary: g)
  case Nil
  then show ?case by simp
next
  case (Cons d docs)
  let ?g = "setdefault_append (cat d) (f d) g"
  have dist: "distinct (map fst ?g)"
    using Cons.prems by (rule distinct_setdefault_append)
  have bucket: "(case map_of ?g c of None \<Rightarrow> [] | Some vs \<Rightarrow> vs) =
      (case map_of g c of None \<Rightarrow> [] | Some vs \<Rightarrow> vs) @ (if cat d = c then [f d] else [])" for c
    by (simp add: map_of_setdefault_append)
  have none: "map_of ?g c = None \<longleftrightarrow> map_of g c = None \<and> cat d \<noteq> c" for c
    by (auto simp: map_of_setdefault_append)
  show ?case
    using Cons.IH [OF dist] by (simp add: bucket none mset_setdefault_append)
qed

lemma agrupar_buckets:
  "distinct (map fst (agrupar cat docs))"
  "map_of (agrupar cat docs) c =
     (if filter (\<lambda>d. cat d = c) docs = [] then None else Some (filter (\<lambda>d. cat d = c) docs))"
  "mset (concat (map snd (agrupar cat docs))) = mset docs"
proof -
  note * = foldl_setdefault_append [of "[]" cat "\<lambda>d. d" docs, simplified]
  show "distinct (map fst (agrupar cat docs))"
    using * by (simp add: agrupar_def)
  show "mset (concat (map snd (agrupar cat docs))) = mset docs"
    using * by (simp add: agrupar_def)
  from * have b: "(case map_of (agrupar cat docs) c of None \<Rightarrow> [] | Some vs \<Rightarrow> vs)
      = filter (\<lambda>d. cat d = c) docs"
    and n: "map_of (agrupar cat docs) c = None \<longleftrightarrow> filter (\<lambda>d. cat d = c) docs = []"
    by (simp_all add: agrupar_def)
  show "map_of (agrupar cat docs) c =
     (if filter (\<lambda>d. cat d = c) docs = [] then None else Some (filter (\<lambda>d. cat d = c) docs))"
    using b n by (cases "map_of (agrupar cat docs) c") auto
qed

lemma grupos_de_buckets:
  "distinct (map fst (grupos_de cr dr))"
  "map_of (grupos_de cr dr) c =
     (if filter (\<lambda>i. categoria_de i = c) cr = [] then None
      else Some (map (fechar dr) (filter (\<lambda>i. categoria_de i = c) cr)))"
  "mset (concat (map snd (grupos_de cr dr))) = mset (map (fechar dr) cr)"
proof -
  note * = foldl_setdefault_append [of "[]" categoria_de "fechar dr" cr, simplified]
  show "distinct (map fst (grupos_de cr dr))"
    using * by (simp add: grupos_de_def)
  show "mset (concat (map snd (grupos_de cr dr))) = mset (map (fechar dr) cr)"
    using * by (simp add: grupos_de_def)
  from * have b: "(case map_of (grupos_de cr dr) c of None \<Rightarrow> [] | Some vs \<Rightarrow> vs)
      = map (fechar dr) (filter (\<lambda>i. categoria_de i = c) cr)"
    and n: "map_of (grupos_de cr dr) c = None \<longleftrightarrow> filter (\<lambda>i. categoria_de i = c) cr = []"
    by (simp_all add: grupos_de_def)
  show "map_of (grupos_de cr dr) c =
     (if filter (\<lambda>i. categoria_de i = c) cr = [] then None
      else Some (map (fechar dr) (filter (\<lambda>i. categoria_de i = c) cr)))"
    using b n by (cases "map_of (grupos_de cr dr) c") auto
qed

text \<open>
  Claim C9. The partitioner of \<^verbatim>\<open>assign_versions_from_ocr\<close> keeps every classified
  document exactly once: the category names of the buckets are distinct, the bucket of a
  category holds exactly the documents of that category, in input order, so that all
  buckets together are a permutation of the input, and every document, whatever its
  category says, is in the bucket named by its category. The partitioner of
  \<^verbatim>\<open>assign_versions\<close> does the same with the filename and date of each item.
\<close>

theorem partition_keeps_every_document:
  "distinct (map fst (agrupar categoria docs))
   \<and> (\<forall>(c, b) \<in> set (agrupar categoria docs). b = filter (\<lambda>d. categoria d = c) docs \<and> b \<noteq> [])
   \<and> (\<forall>d \<in> set docs. \<exists>b. (categoria d, b) \<in> set (agrupar categoria docs) \<and> d \<in> set b)
   \<and> mset (concat (map snd (agrupar categoria docs))) = mset docs
   \<and> distinct (map fst (grupos_de cr dr))
   \<and> (\<forall>(c, b) \<in> set (grupos_de cr dr).
         b = map (fechar dr) (filter (\<lambda>i. categoria_de i = c) cr) \<and> b \<noteq> [])
   \<and> (\<forall>i \<in> set cr. \<exists>b. (categoria_de i, b) \<in> set (grupos_de cr dr) \<and> fechar dr i \<in> set b)
   \<and> mset (concat (map snd (grupos_de cr dr))) = mset (map (fechar dr) cr)"
proof -
  have a: "b = filter (\<lambda>d. categoria d = c) docs \<and> b \<noteq> []"
    if "(c, b) \<in> set (agrupar categoria docs)" for c b
  proof -
    have "map_of (agrupar categoria docs) c = Some b"
      using that agrupar_buckets(1) by (rule map_of_is_SomeI [rotated])
    then show ?thesis
      by (simp add: agrupar_buckets(2) split: if_splits)
  qed
  have b: "\<exists>b. (categoria d, b) \<in> set (agrupar categoria docs) \<and> d \<in> set b"
    if "d \<in> set docs" for d
  proof -
    let ?b = "filter (\<lambda>d'. categoria d' = categoria d) docs"
    have in_b: "d \<in> set ?b" using that by simp
    have "?b \<noteq> []" using that by (auto simp: filter_empty_conv)
    then have "map_of (agrupar categoria docs) (categoria d) = Some ?b"
      by (simp add: agrupar_buckets(2))
    then have "(categoria d, ?b) \<in> set (agrupar categoria docs)"
      by (rule map_of_SomeD)
    with in_b show ?thesis by blast
  qed
  have c: "b = map (fechar dr) (filter (\<lambda>i. categoria_de i = c) cr) \<and> b \<noteq> []"
    if "(c, b) \<in> set (grupos_de cr dr)" for c b
  proof -
    have "map_of (grupos_de cr dr) c = Some b"
      using that grupos_de_buckets(1) by (rule map_of_is_SomeI [rotated])
    then show ?thesis
      by (auto simp: grupos_de_buckets(2) split: if_splits)
  qed
  have d: "\<exists>b. (categoria_de i, b) \<in> set (grupos_de cr dr) \<and> fechar dr i \<in> set b"
    if "i \<in> set cr" for i
  proof -
    let ?is = "filter (\<lambda>i'. categoria_de i' = categoria_de i) cr"
    have in_b: "i \<in> set ?is" using that by simp
    have "?is \<noteq> []" using that by (auto simp: filter_empty_conv)
    then have "map_of (grupos_de cr dr) (categoria_de i) = Some (map (fechar dr) ?is)"
      by (simp add: grupos_de_buckets(2))
    then have "(categoria_de i, map (fechar dr) ?is) \<in> set (grupos_de cr dr)"
      by (rule map_of_SomeD)
    moreover have "fechar dr i \<in> set (map (fechar dr) ?is)"
      using in_b by (simp only: set_map) (rule imageI)
    ultimately show ?thesis by blast
  qed
  show ?thesis
    using a b c d agrupar_buckets(1,3) grupos_de_buckets(1,3) by blast
qed

theorem partition_keeps_every_document_witness:
  "agrupar categoria
     [\<lparr>d_filename = ''a.pdf'', categoria = ''escritura'', d_fecha = ''NO_FECHA'', d_text = ''x''\<rparr>,
      \<lparr>d_filename = ''b.pdf'', categoria = ''raro'', d_fecha = ''NO_FECHA'', d_text = ''y''\<rparr>,
      \<lparr>d_filename = ''c.pdf'', categoria = ''escritura'', d_fecha = ''NO_FECHA'', d_text = ''z''\<rparr>]
   = [(''escritura'',
        [\<lparr>d_filename = ''a.pdf'', categoria = ''escritura'', d_fecha = ''NO_FECHA'', d_text = ''x''\<rparr>,
         \<lparr>d_filename = ''c.pdf'', categoria = ''escritura'', d_fecha = ''NO_FECHA'', d_text = ''z''\<rparr>]),
      (''raro'',
        [\<lparr>d_filename = ''b.pdf'', categoria = ''raro'', d_fecha = ''NO_FECHA'', d_text = ''y''\<rparr>])]
   \<and> mset (concat (map snd (agrupar categoria
     [\<lparr>d_filename = ''a.pdf'', categoria = ''escritura'', d_fecha = ''NO_FECHA'', d_text = ''x''\<rparr>,
      \<lparr>d_filename = ''b.pdf'', categoria = ''raro'', d_fecha = ''NO_FECHA'', d_text = ''y''\<rparr>,
      \<lparr>d_filename = ''c.pdf'', categoria = ''escritura'', d_fecha = ''NO_FECHA'', d_text = ''z''\<rparr>])))
     = mset
     [\<lparr>d_filename = ''a.pdf'', categoria = ''escritura'', d_fecha = ''NO_FECHA'', d_text = ''x''\<rparr>,
      \<lparr>d_filename = ''b.pdf'', categoria = ''raro'', d_fecha = ''NO_FECHA'', d_text = ''y''\<rparr>,
      \<lparr>d_filename = ''c.pdf'', categoria = ''escritura'', d_fecha = ''NO_FECHA'', d_text = ''z''\<rparr>]
   \<and> grupos_de
        [\<lparr>c_filename = ''a.pdf'', clasificacion = Some ''raro'', c_fecha = Some ''10-01-2020''\<rparr>,
         \<lparr>c_filename = ''b.pdf'', clasificacion = None, c_fecha = None\<rparr>] []
      = [(''raro'', [\<lparr>f_filename = ''a.pdf'', f_fecha = ''10-01-2020''\<rparr>]),
         (''otros'', [\<lparr>f_filename = ''b.pdf'', f_fecha = []\<rparr>])]
   \<and> distinct (map fst (grupos_de
        [\<lparr>c_filename = ''a.pdf'', clasificacion = Some ''raro'', c_fecha = Some ''10-01-2020''\<rparr>,
         \<lparr>c_filename = ''b.pdf'', clasificacion = None, c_fecha = None\<rparr>] []))"
proof -
  have 1: "agrupar categoria
     [\<lparr>d_filename = ''a.pdf'', categoria = ''escritura'', d_fecha = ''NO_FECHA'', d_text = ''x''\<rparr>,
      \<lparr>d_filename = ''b.pdf'', categoria = ''raro'', d_fecha = ''NO_FECHA'', d_text = ''y''\<rparr>,
      \<lparr>d_filename = ''c.pdf'', categoria = ''escritura'', d_fecha = ''NO_FECHA'', d_text = ''z''\<rparr>]
   = [(''escritura'',
        [\<lparr>d_filename = ''a.pdf'', categoria = ''escritura'', d_fecha = ''NO_FECHA'', d_text = ''x''\<rparr>,
         \<lparr>d_filename = ''c.pdf'', categoria = ''escritura'', d_fecha = ''NO_FECHA'', d_text = ''z''\<rparr>]),
      (''raro'',
        [\<lparr>d_filename = ''b.pdf'', categoria = ''raro'', d_fecha = ''NO_FECHA'', d_text = ''y''\<rparr>])]"
    by (simp add: agrupar_def)
  have 2: "grupos_de
        [\<lparr>c_filename = ''a.pdf'', clasificacion = Some ''raro'', c_fecha = Some ''10-01-2020''\<rparr>,
         \<lparr>c_filename = ''b.pdf'', clasificacion = None, c_fecha = None\<rparr>] []
      = [(''raro'', [\<lparr>f_filename = ''a.pdf'', f_fecha = ''10-01-2020''\<rparr>]),
         (''otros'', [\<lparr>f_filename = ''b.pdf'', f_fecha = []\<rparr>])]"
    by (simp add: grupos_de_def fechar_def categoria_de_def fecha_de_def fechas_map_def
        get_or_empty_def)
  show ?thesis
    using 1 2 partition_keeps_every_document [of
      "[\<lparr>d_filename = ''a.pdf'', categoria = ''escritura'', d_fecha = ''NO_FECHA'', d_text = ''x''\<rparr>,
      \<lparr>d_filename = ''b.pdf'', categoria = ''raro'', d_fecha = ''NO_FECHA'', d_text = ''y''\<rparr>,
      \<lparr>d_filename = ''c.pdf'', categoria = ''escritura'', d_fecha = ''NO_FECHA'', d_text = ''z''\<rparr>]"
      "[\<lparr>c_filename = ''a.pdf'', clasificacion = Some ''raro'', c_fecha = Some ''10-01-2020''\<rparr>,
         \<lparr>c_filename = ''b.pdf'', clasificacion = None, c_fecha = None\<rparr>]" "[]"]
    by blast
qed

section \<open>Chronological version assigner\<close>

subsection \<open>What a parsed date can be\<close>

lemma digit_val_le: "is_digit c \<Longrightarrow> digit_val c \<le> 9"
  by (auto simp: is_digit_def digit_val_def less_eq_char_def)

lemma nonzero_digit_is_digit: "is_nonzero_digit c \<Longrightarrow> is_digit c"
  by (auto simp: is_digit_def is_nonzero_digit_def less_eq_char_def)

lemma int_of_digits_snoc:
  "int_of_digits (s @ [c]) = 10 * int_of_digits s + int (digit_val c)"
  by (simp add: int_of_digits_def)

lemma int_of_digits_bound:
  "list_all is_digit s \<Longrightarrow> 0 \<le> int_of_digits s \<and> int_of_digits s < 10 ^ length s"
proof (induction s rule: rev_induct)
  case Nil
  then show ?case by (simp add: int_of_digits_def)
next
  case (snoc c s)
  then have "digit_val c \<le> 9" and "0 \<le> int_of_digits s" and "int_of_digits s < 10 ^ length s"
    by (simp_all add: digit_val_le)
  then show ?case
    by (simp add: int_of_digits_snoc)
qed

lemma year_token_bound: "year_token y \<Longrightarrow> int_of_digits y \<le> 9999"
  using int_of_digits_bound [of y] by (simp add: year_token_def)

lemma days_in_month_le: "days_in_month y m \<le> 31"
  by (simp add: days_in_month_def)

lemma month_token_bound: "month_token m \<Longrightarrow> int_of_digits m \<le> 12"
proof (cases m rule: month_token.cases)
  case (1 a b)
  assume "month_token m"
  with 1 show ?thesis
    by (auto simp: int_of_digits_def digit_val_def is_nonzero_digit_def less_eq_char_def)
next
  case (2 a)
  assume "month_token m"
  with 2 show ?thesis
    by (auto simp: int_of_digits_def digit_val_def is_nonzero_digit_def less_eq_char_def)
qed simp_all

lemma strptime_dmy_bounds:
  assumes "strptime_dmy s = Some (y, m, d, t)"
  shows "y \<le> 9999 \<and> m \<le> 12 \<and> d \<le> 31 \<and> t = 0"
  using assms year_token_bound month_token_bound days_in_month_le
  by (auto simp: strptime_dmy_def Let_def split: list.splits if_splits intro: order_trans)

lemma strptime_dmy_less_max: "strptime_dmy s = Some dt \<Longrightarrow> dt < datetime_max"
  using strptime_dmy_bounds [of s "fst dt" "fst (snd dt)" "fst (snd (snd dt))" "snd (snd (snd dt))"]
  by (cases dt) (auto simp: datetime_max_def less_prod_def)

lemma NO_FECHA_unparseable: "strptime_dmy ''NO_FECHA'' = None"
  by (simp add: strptime_dmy_def not_dash_def)

lemma parse_fecha_cases:
  "parse_fecha s = (case strptime_dmy s of Some dt \<Rightarrow> dt | None \<Rightarrow> datetime_max)"
  by (simp add: parse_fecha_def)

subsection \<open>Numbering\<close>

lemma length_numerar: "length (numerar fn fe xs) = length xs"
  by (simp add: numerar_def del: upt_Suc)

lemma nth_numerar:
  "i < length xs \<Longrightarrow>
     numerar fn fe xs ! i = \<lparr>filename = fn (xs ! i), fecha = fe (xs ! i), version = Suc i\<rparr>"
  by (simp add: numerar_def nth_upt del: upt_Suc)

lemma versions_numerar: "map version (numerar fn fe xs) = [1 ..< Suc (length xs)]"
  by (rule nth_equalityI) (simp_all add: length_numerar nth_numerar nth_upt del: upt_Suc)

lemma entries_numerar:
  "map (\<lambda>e. (filename e, fecha e)) (numerar fn fe xs) = map (\<lambda>d. (fn d, fe d)) xs"
  by (rule nth_equalityI) (simp_all add: length_numerar nth_numerar)

subsection \<open>The order \<^verbatim>\<open>assign_versions_from_ocr\<close> gives a category\<close>


lemma length_ordenar_ocr: "length (ordenar_ocr docs) = length docs"
  by (induction docs) (simp_all add: ordenar_ocr_def Let_def)

lemma mset_ordenar_ocr: "mset (ordenar_ocr docs) = mset docs"
  by (simp add: ordenar_ocr_def Let_def)

lemma sorted_wrt_ordenar_ocr: "sorted_wrt precede_ocr (ordenar_ocr docs)"
proof -
  let ?con = "filter (\<lambda>d. d_fecha d \<noteq> ''NO_FECHA'') docs"
  let ?sin = "filter (\<lambda>d. d_fecha d = ''NO_FECHA'') docs"
  let ?A = "sort_key (\<lambda>d. parse_fecha (d_fecha d)) ?con"
  let ?B = "sort_key d_filename ?sin"
  have key: "precede_ocr a b"
    if "d_fecha a \<noteq> ''NO_FECHA''" "parse_fecha (d_fecha a) \<le> parse_fecha (d_fecha b)" for a b
  proof -
    have "to_dt (d_fecha a) \<noteq> None \<and> the (to_dt (d_fecha a)) \<le> the (to_dt (d_fecha b))"
      if "to_dt (d_fecha b) \<noteq> None"
    proof -
      from that obtain db where db: "strptime_dmy (d_fecha b) = Some db"
        by (auto simp: to_dt_def)
      then have "parse_fecha (d_fecha a) < datetime_max"
        using \<open>parse_fecha (d_fecha a) \<le> parse_fecha (d_fecha b)\<close> strptime_dmy_less_max [OF db]
        by (simp add: parse_fecha_def)
      then obtain da where da: "strptime_dmy (d_fecha a) = Some da"
        by (cases "strptime_dmy (d_fecha a)") (simp_all add: parse_fecha_def)
      with db \<open>parse_fecha (d_fecha a) \<le> parse_fecha (d_fecha b)\<close> show ?thesis
        by (simp add: parse_fecha_def to_dt_def)
    qed
    with that(1) show ?thesis by (simp add: precede_ocr_def)
  qed
  have "sorted_wrt (\<lambda>a b. parse_fecha (d_fecha a) \<le> parse_fecha (d_fecha b)) ?A"
    using sorted_sort_key [of "\<lambda>d. parse_fecha (d_fecha d)" ?con]
    by (simp add: sorted_map)
  then have A: "sorted_wrt precede_ocr ?A"
    by (rule sorted_wrt_mono_rel [rotated]) (auto intro: key)
  have "sorted_wrt (\<lambda>a b. d_filename a \<le> d_filename b) ?B"
    using sorted_sort_key [of d_filename ?sin] by (simp add: sorted_map)
  then have B: "sorted_wrt precede_ocr ?B"
    by (rule sorted_wrt_mono_rel [rotated])
      (auto simp: precede_ocr_def to_dt_def NO_FECHA_unparseable)
  have AB: "precede_ocr a b" if "a \<in> set ?A" "b \<in> set ?B" for a b
    using that by (auto simp: precede_ocr_def to_dt_def NO_FECHA_unparseable)
  show ?thesis
    unfolding ordenar_ocr_def Let_def sorted_wrt_append using A B AB by blast
qed

text \<open>
  Claim C4, as the code has it. A chain that \<^verbatim>\<open>assign_versions_from_ocr\<close> produces for a
  category of \<open>N\<close> documents has \<open>N\<close> entries, the documents of the category, numbered
  exactly \<open>1..N\<close> in order. A document whose date parses precedes every document whose
  date does not, and the parsed dates ascend. The documents without a date (the marker
  \<^verbatim>\<open>NO_FECHA\<close>) are the tail of the chain, in alphabetical order of their filenames; a
  document whose date is some other text that does not parse stands between the two.
\<close>

theorem chain_versions_and_order:
  "length (versionar_ocr docs) = length docs
   \<and> map version (versionar_ocr docs) = [1 ..< Suc (length docs)]
   \<and> mset (map (\<lambda>e. (filename e, fecha e)) (versionar_ocr docs))
       = mset (map (\<lambda>d. (d_filename d, d_fecha d)) docs)
   \<and> (\<forall>i j. i < j \<and> j < length docs \<longrightarrow>
         (to_dt (fecha (versionar_ocr docs ! j)) \<noteq> None \<longrightarrow>
            to_dt (fecha (versionar_ocr docs ! i)) \<noteq> None
            \<and> the (to_dt (fecha (versionar_ocr docs ! i)))
                \<le> the (to_dt (fecha (versionar_ocr docs ! j))))
         \<and> (fecha (versionar_ocr docs ! i) = ''NO_FECHA'' \<longrightarrow>
              fecha (versionar_ocr docs ! j) = ''NO_FECHA''
              \<and> filename (versionar_ocr docs ! i) \<le> filename (versionar_ocr docs ! j)))"
proof -
  have len: "length (versionar_ocr docs) = length docs"
    by (simp add: versionar_ocr_def length_numerar length_ordenar_ocr)
  have vers: "map version (versionar_ocr docs) = [1 ..< Suc (length docs)]"
    by (simp only: versionar_ocr_def versions_numerar length_ordenar_ocr)
  have "mset (map (\<lambda>d. (d_filename d, d_fecha d)) (ordenar_ocr docs))
      = mset (map (\<lambda>d. (d_filename d, d_fecha d)) docs)"
    by (simp only: mset_map mset_ordenar_ocr)
  then have perm: "mset (map (\<lambda>e. (filename e, fecha e)) (versionar_ocr docs))
       = mset (map (\<lambda>d. (d_filename d, d_fecha d)) docs)"
    by (simp only: versionar_ocr_def entries_numerar)
  have ord: "precede_ocr (ordenar_ocr docs ! i) (ordenar_ocr docs ! j)"
    if "i < j" "j < length docs" for i j
    using sorted_wrt_ordenar_ocr [of docs] that
    by (simp add: sorted_wrt_iff_nth_less length_ordenar_ocr)
  have "(to_dt (fecha (versionar_ocr docs ! j)) \<noteq> None \<longrightarrow>
            to_dt (fecha (versionar_ocr docs ! i)) \<noteq> None
            \<and> the (to_dt (fecha (versionar_ocr docs ! i)))
                \<le> the (to_dt (fecha (versionar_ocr docs ! j))))
         \<and> (fecha (versionar_ocr docs ! i) = ''NO_FECHA'' \<longrightarrow>
              fecha (versionar_ocr docs ! j) = ''NO_FECHA''
              \<and> filename (versionar_ocr docs ! i) \<le> filename (versionar_ocr docs ! j))"
    if "i < j" "j < length docs" for i j
    using ord [OF that] that
    by (simp add: versionar_ocr_def nth_numerar length_ordenar_ocr precede_ocr_def)
  with len vers perm show ?thesis by blast
qed

theorem chain_versions_and_order_witness:
  "versionar_ocr
     [\<lparr>d_filename = ''z.pdf'', categoria = ''escritura'', d_fecha = ''NO_FECHA'', d_text = ''t1''\<rparr>,
      \<lparr>d_filename = ''b.pdf'', categoria = ''escritura'', d_fecha = ''10-01-2020'', d_text = ''t2''\<rparr>,
      \<lparr>d_filename = ''a.pdf'', categoria = ''escritura'', d_fecha = ''05-03-2019'', d_text = ''t3''\<rparr>,
      \<lparr>d_filename = ''c.pdf'', categoria = ''escritura'', d_fecha = ''NO_FECHA'', d_text = ''t4''\<rparr>]
   = [\<lparr>filename = ''a.pdf'', fecha = ''05-03-2019'', version = 1\<rparr>,
      \<lparr>filename = ''b.pdf'', fecha = ''10-01-2020'', version = 2\<rparr>,
      \<lparr>filename = ''c.pdf'', fecha = ''NO_FECHA'', version = 3\<rparr>,
      \<lparr>filename = ''z.pdf'', fecha = ''NO_FECHA'', version = 4\<rparr>]
   \<and> to_dt ''10-01-2020'' \<noteq> None
   \<and> to_dt ''05-03-2019'' \<noteq> None
   \<and> the (to_dt ''05-03-2019'') \<le> the (to_dt ''10-01-2020'')
   \<and> ''c.pdf'' \<le> ''z.pdf''"
proof -
  let ?docs = "[\<lparr>d_filename = ''z.pdf'', categoria = ''escritura'', d_fecha = ''NO_FECHA'', d_text = ''t1''\<rparr>,
      \<lparr>d_filename = ''b.pdf'', categoria = ''escritura'', d_fecha = ''10-01-2020'', d_text = ''t2''\<rparr>,
      \<lparr>d_filename = ''a.pdf'', categoria = ''escritura'', d_fecha = ''05-03-2019'', d_text = ''t3''\<rparr>,
      \<lparr>d_filename = ''c.pdf'', categoria = ''escritura'', d_fecha = ''NO_FECHA'', d_text = ''t4''\<rparr>]"
  have chain: "versionar_ocr ?docs
   = [\<lparr>filename = ''a.pdf'', fecha = ''05-03-2019'', version = 1\<rparr>,
      \<lparr>filename = ''b.pdf'', fecha = ''10-01-2020'', version = 2\<rparr>,
      \<lparr>filename = ''c.pdf'', fecha = ''NO_FECHA'', version = 3\<rparr>,
      \<lparr>filename = ''z.pdf'', fecha = ''NO_FECHA'', version = 4\<rparr>]"
    by code_simp
  have dated: "to_dt ''10-01-2020'' \<noteq> None"
    by code_simp
  note order = chain_versions_and_order [of ?docs, unfolded chain,
      THEN conjunct2, THEN conjunct2, THEN conjunct2, rule_format]
  show ?thesis
    using chain dated order [of 0 1] order [of 2 3] by simp
qed

text \<open>
  The claim lets the documents without a parseable date end the chain in alphabetical
  order. A date that the model replies and that is no calendar date is kept as it is, and
  its document stays ahead of the documents marked \<^verbatim>\<open>NO_FECHA\<close>, whatever its filename.
\<close>

theorem undated_not_alphabetical_counterexample:
  "assign_versions_from_ocr
     (\<lambda>p. case p of
            Classification_prompt t \<Rightarrow> Content ''escritura''
          | Date_prompt t \<Rightarrow> Content (if t = ''tb'' then ''31-02-2020'' else ''NO_FECHA'')
          | _ \<Rightarrow> Raises ''unused'')
     [\<lparr>o_filename = ''b.pdf'', o_text = ''tb''\<rparr>, \<lparr>o_filename = ''a.pdf'', o_text = ''ta''\<rparr>]
   = [(''escritura'',
       [\<lparr>filename = ''b.pdf'', fecha = ''31-02-2020'', version = 1\<rparr>,
        \<lparr>filename = ''a.pdf'', fecha = ''NO_FECHA'', version = 2\<rparr>])]
   \<and> to_dt ''31-02-2020'' = None
   \<and> to_dt ''NO_FECHA'' = None
   \<and> ''a.pdf'' < ''b.pdf''"
  by code_simp

text \<open>
  Claim C1 at two documents of one category with the same date: the chain follows the
  order of the input, not the alphabetical order of the filenames, so the same set of
  documents in another order gets another chain.
\<close>

theorem same_date_keeps_input_order:
  "assign_versions_from_ocr
     (\<lambda>p. case p of
            Classification_prompt t \<Rightarrow> Content ''escritura''
          | Date_prompt t \<Rightarrow> Content ''10-01-2020''
          | _ \<Rightarrow> Raises ''unused'')
     [\<lparr>o_filename = ''B.pdf'', o_text = ''tb''\<rparr>, \<lparr>o_filename = ''A.pdf'', o_text = ''ta''\<rparr>]
   = [(''escritura'',
       [\<lparr>filename = ''B.pdf'', fecha = ''10-01-2020'', version = 1\<rparr>,
        \<lparr>filename = ''A.pdf'', fecha = ''10-01-2020'', version = 2\<rparr>])]
   \<and> assign_versions_from_ocr
     (\<lambda>p. case p of
            Classification_prompt t \<Rightarrow> Content ''escritura''
          | Date_prompt t \<Rightarrow> Content ''10-01-2020''
          | _ \<Rightarrow> Raises ''unused'')
     [\<lparr>o_filename = ''A.pdf'', o_text = ''ta''\<rparr>, \<lparr>o_filename = ''B.pdf'', o_text = ''tb''\<rparr>]
   = [(''escritura'',
       [\<lparr>filename = ''A.pdf'', fecha = ''10-01-2020'', version = 1\<rparr>,
        \<lparr>filename = ''B.pdf'', fecha = ''10-01-2020'', version = 2\<rparr>])]
   \<and> to_dt ''10-01-2020'' = Some (2020, 1, 10, 0)
   \<and> ''A.pdf'' < ''B.pdf''"
  by code_simp

subsection \<open>The order \<^verbatim>\<open>assign_versions\<close> gives a category\<close>

text \<open>
  \<^verbatim>\<open>assign_versions\<close> splits a category on whether the date parses and sorts the dated
  documents by date and then by filename: its chains are ordered as the specification
  says, and they do not depend on the order of the input when the filenames differ.
\<close>

lemma sorted_wrt_ordenar: "sorted_wrt precede (ordenar docs)"
proof -
  let ?con = "filter (\<lambda>d. to_dt (f_fecha d) \<noteq> None) docs"
  let ?sin = "filter (\<lambda>d. to_dt (f_fecha d) = None) docs"
  let ?A = "sort_key (\<lambda>d. (to_dt (f_fecha d), f_filename d)) ?con"
  let ?B = "sort_key f_filename ?sin"
  have "sorted_wrt (\<lambda>a b. (to_dt (f_fecha a), f_filename a) \<le> (to_dt (f_fecha b), f_filename b)) ?A"
    using sorted_sort_key [of "\<lambda>d. (to_dt (f_fecha d), f_filename d)" ?con]
    by (simp add: sorted_map)
  then have A: "sorted_wrt precede ?A"
    by (rule sorted_wrt_mono_rel [rotated]) (auto simp: precede_def)
  have "sorted_wrt (\<lambda>a b. f_filename a \<le> f_filename b) ?B"
    using sorted_sort_key [of f_filename ?sin] by (simp add: sorted_map)
  then have B: "sorted_wrt precede ?B"
    by (rule sorted_wrt_mono_rel [rotated]) (auto simp: precede_def)
  have AB: "precede a b" if "a \<in> set ?A" "b \<in> set ?B" for a b
    using that by (auto simp: precede_def)
  show ?thesis
    unfolding ordenar_def Let_def sorted_wrt_append using A B AB by blast
qed

lemma sort_key_same_set:
  assumes "mset ys = mset xs" and "distinct xs" and "inj_on f (set xs)"
  shows "sort_key f ys = sort_key f xs"
proof (rule properties_for_sort_key)
  show "mset (sort_key f xs) = mset ys"
    using assms(1) by simp
  show "sorted (map f (sort_key f xs))"
    by (rule sorted_sort_key)
  fix k assume "k \<in> set (sort_key f xs)"
  then have k: "k \<in> set xs" by simp
  have same_set: "set ys = set xs"
    using assms(1) by (rule mset_eq_setD)
  have dist: "distinct ys"
    using assms(1,2) by (metis mset_eq_imp_distinct_iff)
  have eq: "filter (\<lambda>x. f k = f x) zs = filter (\<lambda>x. k = x) zs" if "set zs = set xs" for zs
    using that k assms(3) by (intro filter_cong) (auto dest: inj_onD)
  have one: "filter (\<lambda>x. k = x) zs = [k]" if "set zs = set xs" "distinct zs" for zs
    using that k by (induction zs arbitrary: xs) (auto simp: filter_empty_conv; metis)+
  have "filter (\<lambda>x. f k = f x) (sort_key f xs) = [k]"
    using eq [of "sort_key f xs"] one [of "sort_key f xs"] assms(2) by simp
  moreover have "filter (\<lambda>x. f k = f x) ys = [k]"
    using eq [OF same_set] one [OF same_set dist] by simp
  ultimately show "filter (\<lambda>x. f k = f x) (sort_key f xs) = filter (\<lambda>x. f k = f x) ys"
    by simp
qed

lemma ordenar_input_order:
  assumes "mset docs' = mset docs" and "distinct (map f_filename docs)"
  shows "ordenar docs' = ordenar docs" and "versionar docs' = versionar docs"
proof -
  have inj: "inj_on f_filename (set docs)" and dist: "distinct docs"
    using assms(2) by (simp_all add: distinct_map)
  have 1: "sort_key (\<lambda>d. (to_dt (f_fecha d), f_filename d)) (filter P docs')
        = sort_key (\<lambda>d. (to_dt (f_fecha d), f_filename d)) (filter P docs)" for P
  proof (rule sort_key_same_set)
    show "mset (filter P docs') = mset (filter P docs)"
      using assms(1) by simp
    show "distinct (filter P docs)"
      using dist by simp
    show "inj_on (\<lambda>d. (to_dt (f_fecha d), f_filename d)) (set (filter P docs))"
      using inj by (auto simp: inj_on_def)
  qed
  have 2: "sort_key f_filename (filter P docs') = sort_key f_filename (filter P docs)" for P
  proof (rule sort_key_same_set)
    show "mset (filter P docs') = mset (filter P docs)"
      using assms(1) by simp
    show "distinct (filter P docs)"
      using dist by simp
    show "inj_on f_filename (set (filter P docs))"
      using inj by (auto simp: inj_on_def)
  qed
  show "ordenar docs' = ordenar docs"
    by (simp add: ordenar_def Let_def 1 2)
  then show "versionar docs' = versionar docs"
    by (simp add: versionar_def)
qed

section \<open>Pairwise version differ\<close>

lemma length_consecutivos: "length (consecutivos xs) = length xs - 1"
  by (simp add: consecutivos_def)

lemma nth_consecutivos:
  "Suc i < length xs \<Longrightarrow> consecutivos xs ! i = (xs ! i, xs ! Suc i)"
  by (simp add: consecutivos_def nth_tl)

lemma sorted_versions_upt: "sorted [1 ..< Suc n]"
  by (simp del: upt_Suc)

lemma sort_key_version_chain:
  "map version docs = [1 ..< Suc (length docs)] \<Longrightarrow> sort_key version docs = docs"
  by (rule sort_key_id_if_sorted) (simp only: sorted_versions_upt)

lemma version_nth_chain:
  assumes "map version docs = [1 ..< Suc (length docs)]" and "i < length docs"
  shows "version (docs ! i) = Suc i"
proof -
  have "version (docs ! i) = map version docs ! i"
    using assms(2) by simp
  also have "\<dots> = [1 ..< Suc (length docs)] ! i"
    by (simp only: assms(1))
  also have "\<dots> = Suc i"
    using assms(2) by (simp add: nth_upt del: upt_Suc)
  finally show ?thesis .
qed

lemma length_comparar_categoria:
  "length (comparar_categoria model jl idx docs) = length docs - 1"
  by (simp add: comparar_categoria_def length_consecutivos)

lemma nth_comparar_categoria:
  assumes "Suc i < length docs"
  shows "comparar_categoria model jl idx docs ! i =
     \<lparr>cmp_de = sort_key version docs ! i, cmp_a = sort_key version docs ! Suc i,
      diferencias = compare_texts model jl
        (find_text idx (filename (sort_key version docs ! i)))
        (find_text idx (filename (sort_key version docs ! Suc i)))\<rparr>"
proof -
  from assms have "docs \<noteq> []" "\<not> length docs < 2" by auto
  moreover from assms have "i < length (consecutivos (sort_key version docs))"
    by (simp add: length_consecutivos)
  moreover from assms have "Suc i < length (sort_key version docs)" by simp
  ultimately show ?thesis
    by (simp add: comparar_categoria_def nth_consecutivos)
qed

text \<open>
  Claim C5. For a version chain of \<open>N\<close> entries, numbered \<open>1..N\<close>, the agent returns
  \<open>N - 1\<close> comparisons when \<open>N\<close> is at least 2, the \<open>i\<close>-th of them from the entry of
  version \<open>i\<close> to the entry of version \<open>i + 1\<close>, so in ascending order and between
  neighbours only; for a chain of fewer than two entries it returns the empty list. In the
  result of \<^verbatim>\<open>comparar_versiones\<close> every category has the comparisons of its own chain.
\<close>

theorem adjacent_comparisons:
  assumes "map version docs = [1 ..< Suc (length docs)]"
  shows "(2 \<le> length docs \<longrightarrow>
            length (comparar_categoria model jl idx docs) = length docs - 1)
    \<and> (length docs < 2 \<longrightarrow> comparar_categoria model jl idx docs = [])
    \<and> (\<forall>i. Suc i < length docs \<longrightarrow>
          cmp_de (comparar_categoria model jl idx docs ! i) = docs ! i
          \<and> cmp_a (comparar_categoria model jl idx docs ! i) = docs ! Suc i
          \<and> version (cmp_de (comparar_categoria model jl idx docs ! i)) = Suc i
          \<and> version (cmp_a (comparar_categoria model jl idx docs ! i)) = Suc (Suc i))
    \<and> (\<forall>c \<in> set (comparar_categoria model jl idx docs). version (cmp_a c) = Suc (version (cmp_de c)))
    \<and> comparar_versiones model jl versioning ocr
        = map (\<lambda>(cat, chain). (cat, comparar_categoria model jl (ocr_index ocr) chain)) versioning"
proof -
  note sorted_chain = sort_key_version_chain [OF assms]
  have short: "comparar_categoria model jl idx docs = []" if "length docs < 2"
    using that by (simp add: comparar_categoria_def)
  have nth: "cmp_de (comparar_categoria model jl idx docs ! i) = docs ! i
          \<and> cmp_a (comparar_categoria model jl idx docs ! i) = docs ! Suc i
          \<and> version (cmp_de (comparar_categoria model jl idx docs ! i)) = Suc i
          \<and> version (cmp_a (comparar_categoria model jl idx docs ! i)) = Suc (Suc i)"
    if "Suc i < length docs" for i
    using that version_nth_chain [OF assms, of i] version_nth_chain [OF assms, of "Suc i"]
    by (simp add: nth_comparar_categoria sorted_chain)
  have adj: "version (cmp_a c) = Suc (version (cmp_de c))"
    if "c \<in> set (comparar_categoria model jl idx docs)" for c
  proof -
    from that obtain i where i: "i < length docs - 1" "c = comparar_categoria model jl idx docs ! i"
      by (auto simp: in_set_conv_nth length_comparar_categoria)
    then have "Suc i < length docs" by simp
    from nth [OF this]
    have "version (cmp_a (comparar_categoria model jl idx docs ! i)) = Suc (Suc i)"
      and "version (cmp_de (comparar_categoria model jl idx docs ! i)) = Suc i"
      by blast+
    then show ?thesis
      unfolding i(2) by (simp only:)
  qed
  have len: "length (comparar_categoria model jl idx docs) = length docs - 1"
    by (rule length_comparar_categoria)
  have top: "comparar_versiones model jl versioning ocr
        = map (\<lambda>(cat, chain). (cat, comparar_categoria model jl (ocr_index ocr) chain)) versioning"
    by (simp add: comparar_versiones_def)
  from len short nth adj top show ?thesis
    by blast
qed

theorem adjacent_comparisons_witness:
  "map version
     [\<lparr>filename = ''a.pdf'', fecha = ''05-03-2019'', version = 1\<rparr>,
      \<lparr>filename = ''b.pdf'', fecha = ''10-01-2020'', version = 2\<rparr>,
      \<lparr>filename = ''c.pdf'', fecha = ''NO_FECHA'', version = 3\<rparr>]
   = [1 ..< Suc (length
     [\<lparr>filename = ''a.pdf'', fecha = ''05-03-2019'', version = 1\<rparr>,
      \<lparr>filename = ''b.pdf'', fecha = ''10-01-2020'', version = 2\<rparr>,
      \<lparr>filename = ''c.pdf'', fecha = ''NO_FECHA'', version = 3\<rparr>])]
   \<and> map (\<lambda>c. (version (cmp_de c), version (cmp_a c)))
       (comparar_categoria (\<lambda>p. Raises ''unused'') (\<lambda>s. None) (\<lambda>f. None)
          [\<lparr>filename = ''a.pdf'', fecha = ''05-03-2019'', version = 1\<rparr>,
           \<lparr>filename = ''b.pdf'', fecha = ''10-01-2020'', version = 2\<rparr>,
           \<lparr>filename = ''c.pdf'', fecha = ''NO_FECHA'', version = 3\<rparr>])
     = [(1, 2), (2, 3)]
   \<and> comparar_categoria (\<lambda>p. Raises ''unused'') (\<lambda>s. None) (\<lambda>f. None)
          [\<lparr>filename = ''a.pdf'', fecha = ''05-03-2019'', version = 1\<rparr>] = []"
proof -
  let ?docs = "[\<lparr>filename = ''a.pdf'', fecha = ''05-03-2019'', version = 1\<rparr>,
      \<lparr>filename = ''b.pdf'', fecha = ''10-01-2020'', version = 2\<rparr>,
      \<lparr>filename = ''c.pdf'', fecha = ''NO_FECHA'', version = 3\<rparr>]"
  let ?one = "[\<lparr>filename = ''a.pdf'', fecha = ''05-03-2019'', version = 1\<rparr>]"
  let ?comps = "comparar_categoria (\<lambda>p. Raises ''unused'') (\<lambda>s. None) (\<lambda>f. None) ?docs"
  have chain: "map version ?docs = [1 ..< Suc (length ?docs)]"
    by code_simp
  have one: "map version ?one = [1 ..< Suc (length ?one)]"
    by code_simp
  note t = adjacent_comparisons [OF chain, of "\<lambda>p. Raises ''unused''" "\<lambda>s. None" "\<lambda>f. None" "[]" "[]"]
  note u = adjacent_comparisons [OF one, of "\<lambda>p. Raises ''unused''" "\<lambda>s. None" "\<lambda>f. None" "[]" "[]"]
  from t have len: "length ?comps = 2" by simp
  from t have v0: "version (cmp_de (?comps ! 0)) = 1 \<and> version (cmp_a (?comps ! 0)) = 2"
    by simp
  from t have v1: "version (cmp_de (?comps ! 1)) = 2 \<and> version (cmp_a (?comps ! 1)) = 3"
    by simp
  have "map (\<lambda>c. (version (cmp_de c), version (cmp_a c))) ?comps = [(1, 2), (2, 3)]"
    using len v0 v1 by (intro nth_equalityI) (auto simp: less_Suc_eq numeral_2_eq_2)
  moreover from u have "comparar_categoria (\<lambda>p. Raises ''unused'') (\<lambda>s. None) (\<lambda>f. None) ?one = []"
    by simp
  ultimately show ?thesis using chain by blast
qed

subsection \<open>A pair with a text missing\<close>

lemma compare_texts_empty:
  "a = [] \<or> b = [] \<Longrightarrow> compare_texts model jl a b = fallback"
  by (auto simp: compare_texts_def)

lemma comparar_versiones_pair:
  assumes "version x \<le> version y"
  shows "comparar_versiones model jl [(''escritura'', [x, y])] ocr =
     [(''escritura'',
       [\<lparr>cmp_de = x, cmp_a = y,
         diferencias = compare_texts model jl (find_text (ocr_index ocr) (filename x))
                         (find_text (ocr_index ocr) (filename y))\<rparr>])]"
  using assms by (simp add: comparar_versiones_def comparar_categoria_def consecutivos_def)

lemma comparar_pares_filter:
  assumes "get_llm ev = Inr model"
    and "\<forall>(x, y) \<in> set pares. version x \<le> version y"
  shows "comparar_pares ev ocr pares =
     Inr (map (entrada model (json_loads ev) ocr) (filter (con_textos ocr) pares))"
  using assms(2)
proof (induction pares)
  case Nil
  show ?case by simp
next
  case (Cons p pares)
  obtain x y where p: "p = (x, y)" by (cases p)
  with Cons.prems have le: "version x \<le> version y"
    and rest: "\<forall>(x, y) \<in> set pares. version x \<le> version y"
    by auto
  note IH = Cons.IH [OF rest]
  show ?case
  proof (cases "con_textos ocr (x, y)")
    case False
    then show ?thesis
      using IH by (auto simp: p con_textos_def)
  next
    case True
    then show ?thesis
      using IH
      by (simp add: p con_textos_def entrada_def assms(1) and_then_def
          comparar_versiones_pair [OF le])
  qed
qed

lemma consecutivos_sorted:
  assumes "sorted (map f xs)" and "(x, y) \<in> set (consecutivos xs)"
  shows "f x \<le> f y"
proof -
  from assms(2) obtain i where i: "i < length (consecutivos xs)" "consecutivos xs ! i = (x, y)"
    by (auto simp: in_set_conv_nth)
  then have si: "Suc i < length xs"
    by (simp add: length_consecutivos)
  with i(2) have "x = xs ! i" "y = xs ! Suc i"
    by (simp_all add: nth_consecutivos)
  moreover have "map f xs ! i \<le> map f xs ! Suc i"
    using assms(1) si by (simp add: sorted_iff_nth_mono del: nth_map)
  ultimately show ?thesis
    using si by simp
qed

text \<open>
  Claim C6, as the code has it. In the comparison stage of the graph, whenever the model
  is available, the loop over the consecutive pairs of the chain of \<^verbatim>\<open>escritura\<close> gives
  exactly one entry for each pair whose two texts are there, in order, and none for a pair
  with a text missing, so a missing text costs its own pairs only. The agent's
  \<^verbatim>\<open>comparar_versiones\<close> does not pass over such a pair: it returns one comparison for
  every consecutive pair of the chain, and the comparison of a pair with a text missing
  carries the fallback (no changes, empty summary).
\<close>

theorem missing_text_costs_one_pair:
  "(get_llm ev = Inr model \<longrightarrow>
      comparar_pares ev ocr (consecutivos (sort_key version escrituras)) =
        Inr (map (entrada model (json_loads ev) ocr)
               (filter (con_textos ocr) (consecutivos (sort_key version escrituras)))))
   \<and> length (comparar_categoria model jl idx docs) = length docs - 1
   \<and> (\<forall>i. Suc i < length docs
          \<and> (find_text idx (filename (sort_key version docs ! i)) = []
              \<or> find_text idx (filename (sort_key version docs ! Suc i)) = []) \<longrightarrow>
          diferencias (comparar_categoria model jl idx docs ! i) = fallback)"
proof -
  have "\<forall>(x, y) \<in> set (consecutivos (sort_key version escrituras)). version x \<le> version y"
    using consecutivos_sorted [of version "sort_key version escrituras"] sorted_sort_key [of version escrituras]
    by blast
  then have stage: "comparar_pares ev ocr (consecutivos (sort_key version escrituras)) =
        Inr (map (entrada model (json_loads ev) ocr)
               (filter (con_textos ocr) (consecutivos (sort_key version escrituras))))"
    if "get_llm ev = Inr model"
    using that by (rule comparar_pares_filter [rotated])
  have agent: "diferencias (comparar_categoria model jl idx docs ! i) = fallback"
    if "Suc i < length docs"
      and "find_text idx (filename (sort_key version docs ! i)) = []
           \<or> find_text idx (filename (sort_key version docs ! Suc i)) = []" for i
    using that by (simp add: nth_comparar_categoria compare_texts_empty)
  from stage agent length_comparar_categoria [of model jl idx docs] show ?thesis
    by blast
qed

theorem missing_text_costs_one_pair_witness:
  "get_llm ejemplo_env = Inr ejemplo_model
   \<and> texto_de ejemplo_ocr ''b.pdf'' = []
   \<and> comparar_pares ejemplo_env ejemplo_ocr (consecutivos (sort_key version ejemplo_chain))
       = Inr [\<lparr>ec_categoria = ''escritura'',
               ec_de = \<lparr>filename = ''c.pdf'', fecha = ''10-01-2020'', version = 3\<rparr>,
               ec_a = \<lparr>filename = ''d.pdf'', fecha = ''11-01-2020'', version = 4\<rparr>,
               ec_cambios = JArr [JStr ''capital''], ec_resumen = JStr ''aumento''\<rparr>]
   \<and> Suc 0 < length ejemplo_chain
   \<and> find_text (ocr_index ejemplo_ocr) (filename (sort_key version ejemplo_chain ! Suc 0)) = []
   \<and> length (comparar_categoria ejemplo_model ejemplo_loads (ocr_index ejemplo_ocr) ejemplo_chain) = 3
   \<and> diferencias (comparar_categoria ejemplo_model ejemplo_loads (ocr_index ejemplo_ocr) ejemplo_chain ! 0)
       = fallback"
proof -
  note t = missing_text_costs_one_pair [where ev = ejemplo_env and model = ejemplo_model
      and ocr = ejemplo_ocr and escrituras = ejemplo_chain and jl = ejemplo_loads
      and idx = "ocr_index ejemplo_ocr" and docs = ejemplo_chain]
  have llm: "get_llm ejemplo_env = Inr ejemplo_model"
    by (simp add: ejemplo_env_def)
  have b: "texto_de ejemplo_ocr ''b.pdf'' = []"
    by code_simp
  have len: "Suc 0 < length ejemplo_chain"
    by code_simp
  have len3: "length ejemplo_chain - 1 = 3"
    by code_simp
  have missing: "find_text (ocr_index ejemplo_ocr) (filename (sort_key version ejemplo_chain ! Suc 0)) = []"
    by (simp add: find_text_def ocr_index_def ejemplo_ocr_def ejemplo_chain_def)
  have kept: "map (entrada ejemplo_model (json_loads ejemplo_env) ejemplo_ocr)
         (filter (con_textos ejemplo_ocr) (consecutivos (sort_key version ejemplo_chain)))
       = [\<lparr>ec_categoria = ''escritura'',
               ec_de = \<lparr>filename = ''c.pdf'', fecha = ''10-01-2020'', version = 3\<rparr>,
               ec_a = \<lparr>filename = ''d.pdf'', fecha = ''11-01-2020'', version = 4\<rparr>,
               ec_cambios = JArr [JStr ''capital''], ec_resumen = JStr ''aumento''\<rparr>]"
    by (simp add: entrada_def con_textos_def consecutivos_def ejemplo_chain_def ejemplo_ocr_def
        ejemplo_env_def ejemplo_model_def ejemplo_loads_def texto_de_def ocr_index_def
        find_text_def max_chars_doc_def compare_texts_def dict_get_def py_dict_def)
  from t llm b len len3 missing kept show ?thesis
    by simp
qed

text \<open>
  The claim has the differ emit no comparison for a pair with a text missing. The agent
  emits one: of two versions, the second without text, it returns the comparison of the
  pair, with the fallback as its differences.
\<close>

theorem missing_text_pair_emitted_counterexample:
  "ocr_index [\<lparr>o_filename = ''a.pdf'', o_text = ''acme''\<rparr>] ''b.pdf'' = None
   \<and> comparar_versiones ejemplo_model ejemplo_loads
       [(''escritura'',
         [\<lparr>filename = ''a.pdf'', fecha = ''05-03-2019'', version = 1\<rparr>,
          \<lparr>filename = ''b.pdf'', fecha = ''10-01-2020'', version = 2\<rparr>])]
       [\<lparr>o_filename = ''a.pdf'', o_text = ''acme''\<rparr>]
     = [(''escritura'',
         [\<lparr>cmp_de = \<lparr>filename = ''a.pdf'', fecha = ''05-03-2019'', version = 1\<rparr>,
           cmp_a = \<lparr>filename = ''b.pdf'', fecha = ''10-01-2020'', version = 2\<rparr>,
           diferencias = [(''cambios'', JArr []), (''resumen'', JStr [])]\<rparr>])]"
  by (simp add: comparar_versiones_def comparar_categoria_def consecutivos_def ocr_index_def
      find_text_def compare_texts_def fallback_def)

section \<open>Field reconciler\<close>

subsection \<open>Dictionaries\<close>












subsection \<open>Filling from one older document\<close>


subsection \<open>The loop over the older documents\<close>

lemma rellenar_done: "rellenar ex ocr docs (res, []) = Inr (res, [])"
  by (cases docs) simp_all

lemma rellenar_Cons:
  "rellenar ex ocr (doc # docs) (res, ef) =
     (if ef = [] then Inr (res, ef)
      else if ocr_text_by_filename ocr (filename doc) = [] then rellenar ex ocr docs (res, ef)
      else case ex (ocr_text_by_filename ocr (filename doc)) of
             Inl e \<Rightarrow> Inl e
           | Inr r \<Rightarrow>
               (case llenar r ef (res, ef) of
                  Inl e \<Rightarrow> Inl e
                | Inr st \<Rightarrow> rellenar ex ocr docs st))"
  by (auto simp: Let_def rellenar_done split: sum.splits)


text \<open>A document without text leaves the loop as if it were not in the chain.\<close>

lemma rellenar_filter:
  "rellenar ex ocr (filter (\<lambda>d. ocr_text_by_filename ocr (filename d) \<noteq> []) docs) st =
     rellenar ex ocr docs st"
proof (induction docs arbitrary: st)
  case Nil
  show ?case by simp
next
  case (Cons d docs)
  obtain res ef where st: "st = (res, ef)" by (cases st)
  show ?case
    unfolding st
    by (cases "ocr_text_by_filename ocr (filename d) = []")
      (auto simp: rellenar_Cons Cons.IH rellenar_done split: sum.splits)
qed


subsection \<open>The reconcilers\<close>

lemma filter_sorted_reverse:
  "sorted_reverse f (filter P xs) = filter P (sorted_reverse f xs)"
  by (simp add: sorted_reverse_def rev_filter filter_sort [symmetric])

lemma set_sorted_reverse: "set (sorted_reverse f xs) = set xs"
  by (simp add: sorted_reverse_def)

lemma sorted_reverse_Nil: "sorted_reverse f xs = [] \<longleftrightarrow> xs = []"
  by (metis set_sorted_reverse set_empty)

lemma escrituras_de_single: "escrituras_de [(''escritura'', docs)] = docs"
  by (simp add: escrituras_de_def)

text \<open>The reconciler, once the newest document is known.\<close>

lemma with_date_priority_latest:
  assumes "sorted_reverse (\<lambda>x. rg_parse_fecha (fecha x)) (escrituras_de versioning) = latest # older"
  shows "with_date_priority el ex vacio versioning ocr =
     (if ocr_text_by_filename ocr (filename latest) = [] then Inr vacio
      else case el (ocr_text_by_filename ocr (filename latest)) of
             Inl e \<Rightarrow> Inl e
           | Inr res0 \<Rightarrow> map_sum id fst (rellenar ex ocr older (res0, get_empty_fields res0)))"
proof -
  from assms have "escrituras_de versioning \<noteq> []"
    by (auto simp: sorted_reverse_def)
  then show ?thesis
    using assms by (auto simp: with_date_priority_def Let_def rellenar_done split: sum.splits)
qed

lemma with_date_priority_skips_textless:
  assumes "sorted_reverse (\<lambda>x. rg_parse_fecha (fecha x)) (escrituras_de versioning) = latest # older"
    and "ocr_text_by_filename ocr (filename latest) \<noteq> []"
  shows "with_date_priority el ex vacio versioning ocr =
     with_date_priority el ex vacio
       [(''escritura'',
         filter (\<lambda>d. ocr_text_by_filename ocr (filename d) \<noteq> []) (escrituras_de versioning))] ocr"
proof -
  let ?P = "\<lambda>d. ocr_text_by_filename ocr (filename d) \<noteq> []"
  have "sorted_reverse (\<lambda>x. rg_parse_fecha (fecha x))
          (escrituras_de [(''escritura'', filter ?P (escrituras_de versioning))])
        = latest # filter ?P older"
    using assms by (simp add: escrituras_de_single filter_sorted_reverse)
  from with_date_priority_latest [OF this, where el = el and ex = ex and vacio = vacio and ocr = ocr]
    with_date_priority_latest [OF assms(1), where el = el and ex = ex and vacio = vacio and ocr = ocr]
  show ?thesis
    by (simp add: rellenar_filter split: sum.splits)
qed

lemma with_date_priority_no_text:
  assumes "sorted_reverse (\<lambda>x. rg_parse_fecha (fecha x)) (escrituras_de versioning) = latest # older"
    and "ocr_text_by_filename ocr (filename latest) = []"
  shows "with_date_priority el ex vacio versioning ocr = Inr vacio"
  using with_date_priority_latest [OF assms(1), where el = el and ex = ex and vacio = vacio and ocr = ocr]
    assms(2)
  by simp

text \<open>
  Claim C7, as the code has it. Let the newest document of the chain of \<^verbatim>\<open>escritura\<close>
  be the first one in descending order of date. If its text is there, every document of
  the chain without text is passed over: the section and the header are reconciled as they
  are for the chain without those documents. If the text of the newest document is not
  there, reconciliation does not go on to the other documents: it returns at once, the
  section as the empty dictionary and the header with its three fields empty.
\<close>

theorem textless_documents_are_skipped:
  assumes "sorted_reverse (\<lambda>x. rg_parse_fecha (fecha x)) (escrituras_de versioning) = latest # older"
  shows "(ocr_text_by_filename ocr (filename latest) \<noteq> [] \<longrightarrow>
            extract_section_with_date_priority model jl seccion versioning ocr =
              extract_section_with_date_priority model jl seccion
                [(''escritura'',
                  filter (\<lambda>d. ocr_text_by_filename ocr (filename d) \<noteq> []) (escrituras_de versioning))] ocr
            \<and> extract_encabezado_with_date_priority model jl versioning ocr =
              extract_encabezado_with_date_priority model jl
                [(''escritura'',
                  filter (\<lambda>d. ocr_text_by_filename ocr (filename d) \<noteq> []) (escrituras_de versioning))] ocr)
    \<and> (ocr_text_by_filename ocr (filename latest) = [] \<longrightarrow>
            extract_section_with_date_priority model jl seccion versioning ocr = Inr []
            \<and> extract_encabezado_with_date_priority model jl versioning ocr =
                Inr [(''informesociedad'', JObj encabezado_vacio)])"
  using with_date_priority_skips_textless [OF assms] with_date_priority_no_text [OF assms]
  by (simp add: extract_section_with_date_priority_def extract_encabezado_with_date_priority_def)

subsection \<open>A worked chain\<close>

lemmas reconciler_example_defs =
  extract_section_with_date_priority_def extract_encabezado_with_date_priority_def
  extract_section_from_text_def extract_encabezado_def llm_json_def py_dict_def
  ejemplo_model_def ejemplo_loads_def ejemplo_ocr_def ocr_text_by_filename_def ocr_index_def
  get_empty_fields_def is_empty_value_def strip_def is_space_def encabezado_vacio_def

lemma ejemplo_sorted:
  "sorted_reverse (\<lambda>x. rg_parse_fecha (fecha x)) (escrituras_de [(''escritura'', ejemplo_chain)])
   = \<lparr>filename = ''d.pdf'', fecha = ''11-01-2020'', version = 4\<rparr>
     # [\<lparr>filename = ''c.pdf'', fecha = ''10-01-2020'', version = 3\<rparr>,
        \<lparr>filename = ''b.pdf'', fecha = ''05-03-2019'', version = 2\<rparr>,
        \<lparr>filename = ''a.pdf'', fecha = ''05-03-2018'', version = 1\<rparr>]"
  by code_simp

lemma ejemplo_sorted_two:
  "sorted_reverse (\<lambda>x. rg_parse_fecha (fecha x))
     (escrituras_de [(''escritura'',
        [\<lparr>filename = ''a.pdf'', fecha = ''05-03-2018'', version = 1\<rparr>,
         \<lparr>filename = ''b.pdf'', fecha = ''05-03-2019'', version = 2\<rparr>])])
   = \<lparr>filename = ''b.pdf'', fecha = ''05-03-2019'', version = 2\<rparr>
     # [\<lparr>filename = ''a.pdf'', fecha = ''05-03-2018'', version = 1\<rparr>]"
  by code_simp

lemma ejemplo_sorted_one:
  "sorted_reverse (\<lambda>x. rg_parse_fecha (fecha x))
     (escrituras_de [(''escritura'', [\<lparr>filename = ''a.pdf'', fecha = ''05-03-2018'', version = 1\<rparr>])])
   = \<lparr>filename = ''a.pdf'', fecha = ''05-03-2018'', version = 1\<rparr> # []"
  by code_simp

lemma ejemplo_seccion:
  "extract_section_with_date_priority ejemplo_model ejemplo_loads ''constitucion''
     [(''escritura'', ejemplo_chain)] ejemplo_ocr
   = Inr [(''razon_social'', JStr ''Acme Corp''), (''rut'', JStr ''76.154.106-4'')]"
  using with_date_priority_latest [OF ejemplo_sorted, of
      "extract_section_from_text ejemplo_model ejemplo_loads ''constitucion''"
      "extract_section_from_text ejemplo_model ejemplo_loads ''constitucion''" "[]" ejemplo_ocr]
  by (simp add: reconciler_example_defs)

lemma ejemplo_seccion_one:
  "extract_section_with_date_priority ejemplo_model ejemplo_loads ''constitucion''
     [(''escritura'', [\<lparr>filename = ''a.pdf'', fecha = ''05-03-2018'', version = 1\<rparr>])] ejemplo_ocr
   = Inr [(''razon_social'', JStr ''Otra''), (''rut'', JStr ''76.154.106-4'')]"
  using with_date_priority_latest [OF ejemplo_sorted_one, of
      "extract_section_from_text ejemplo_model ejemplo_loads ''constitucion''"
      "extract_section_from_text ejemplo_model ejemplo_loads ''constitucion''" "[]" ejemplo_ocr]
  by (simp add: reconciler_example_defs)

lemma ejemplo_seccion_two:
  "extract_section_with_date_priority ejemplo_model ejemplo_loads ''constitucion''
     [(''escritura'',
        [\<lparr>filename = ''a.pdf'', fecha = ''05-03-2018'', version = 1\<rparr>,
         \<lparr>filename = ''b.pdf'', fecha = ''05-03-2019'', version = 2\<rparr>])] ejemplo_ocr
   = Inr []"
  using with_date_priority_latest [OF ejemplo_sorted_two, of
      "extract_section_from_text ejemplo_model ejemplo_loads ''constitucion''"
      "extract_section_from_text ejemplo_model ejemplo_loads ''constitucion''" "[]" ejemplo_ocr]
  by (simp add: reconciler_example_defs)

lemma ejemplo_encabezado_two:
  "extract_encabezado_with_date_priority ejemplo_model ejemplo_loads
     [(''escritura'',
        [\<lparr>filename = ''a.pdf'', fecha = ''05-03-2018'', version = 1\<rparr>,
         \<lparr>filename = ''b.pdf'', fecha = ''05-03-2019'', version = 2\<rparr>])] ejemplo_ocr
   = Inr [(''informesociedad'',
           JObj [(''razon_social'', JStr []), (''rut'', JStr []), (''nombre_fantasia'', JStr [])])]"
  using with_date_priority_latest [OF ejemplo_sorted_two, of
      "extract_encabezado ejemplo_model ejemplo_loads ''items''"
      "extract_encabezado ejemplo_model ejemplo_loads ''get''" encabezado_vacio ejemplo_ocr]
  by (simp add: reconciler_example_defs)

theorem textless_documents_are_skipped_witness:
  "sorted_reverse (\<lambda>x. rg_parse_fecha (fecha x)) (escrituras_de [(''escritura'', ejemplo_chain)])
   = \<lparr>filename = ''d.pdf'', fecha = ''11-01-2020'', version = 4\<rparr>
     # [\<lparr>filename = ''c.pdf'', fecha = ''10-01-2020'', version = 3\<rparr>,
        \<lparr>filename = ''b.pdf'', fecha = ''05-03-2019'', version = 2\<rparr>,
        \<lparr>filename = ''a.pdf'', fecha = ''05-03-2018'', version = 1\<rparr>]
   \<and> ocr_text_by_filename ejemplo_ocr ''d.pdf'' \<noteq> []
   \<and> ocr_text_by_filename ejemplo_ocr ''b.pdf'' = []
   \<and> extract_section_with_date_priority ejemplo_model ejemplo_loads ''constitucion''
        [(''escritura'', ejemplo_chain)] ejemplo_ocr
      = Inr [(''razon_social'', JStr ''Acme Corp''), (''rut'', JStr ''76.154.106-4'')]
   \<and> extract_section_with_date_priority ejemplo_model ejemplo_loads ''constitucion''
        [(''escritura'',
          [\<lparr>filename = ''a.pdf'', fecha = ''05-03-2018'', version = 1\<rparr>,
           \<lparr>filename = ''c.pdf'', fecha = ''10-01-2020'', version = 3\<rparr>,
           \<lparr>filename = ''d.pdf'', fecha = ''11-01-2020'', version = 4\<rparr>])] ejemplo_ocr
      = Inr [(''razon_social'', JStr ''Acme Corp''), (''rut'', JStr ''76.154.106-4'')]"
proof -
  have d: "ocr_text_by_filename ejemplo_ocr
             (filename \<lparr>filename = ''d.pdf'', fecha = ''11-01-2020'', version = 4\<rparr>) \<noteq> []"
    and b: "ocr_text_by_filename ejemplo_ocr ''b.pdf'' = []"
    by (simp_all add: reconciler_example_defs)
  have kept: "filter (\<lambda>d. ocr_text_by_filename ejemplo_ocr (filename d) \<noteq> [])
                (escrituras_de [(''escritura'', ejemplo_chain)])
      = [\<lparr>filename = ''a.pdf'', fecha = ''05-03-2018'', version = 1\<rparr>,
         \<lparr>filename = ''c.pdf'', fecha = ''10-01-2020'', version = 3\<rparr>,
         \<lparr>filename = ''d.pdf'', fecha = ''11-01-2020'', version = 4\<rparr>]"
    by (simp add: escrituras_de_def ejemplo_chain_def reconciler_example_defs)
  from textless_documents_are_skipped [OF ejemplo_sorted, of ejemplo_ocr ejemplo_model
      ejemplo_loads "''constitucion''"] d
  have "extract_section_with_date_priority ejemplo_model ejemplo_loads ''constitucion''
          [(''escritura'', ejemplo_chain)] ejemplo_ocr
        = extract_section_with_date_priority ejemplo_model ejemplo_loads ''constitucion''
            [(''escritura'',
              [\<lparr>filename = ''a.pdf'', fecha = ''05-03-2018'', version = 1\<rparr>,
               \<lparr>filename = ''c.pdf'', fecha = ''10-01-2020'', version = 3\<rparr>,
               \<lparr>filename = ''d.pdf'', fecha = ''11-01-2020'', version = 4\<rparr>])] ejemplo_ocr"
    unfolding kept by blast
  with ejemplo_seccion ejemplo_sorted d b show ?thesis
    by simp
qed

text \<open>
  The claim has reconciliation go on with the remaining documents also when the document
  without text is the newest one. With the newest of two documents without text the
  section comes back empty, while the remaining document alone gives two fields.
\<close>

theorem newest_without_text_counterexample:
  "ocr_text_by_filename ejemplo_ocr ''b.pdf'' = []
   \<and> extract_section_with_date_priority ejemplo_model ejemplo_loads ''constitucion''
        [(''escritura'',
          [\<lparr>filename = ''a.pdf'', fecha = ''05-03-2018'', version = 1\<rparr>,
           \<lparr>filename = ''b.pdf'', fecha = ''05-03-2019'', version = 2\<rparr>])] ejemplo_ocr
      = Inr []
   \<and> extract_section_with_date_priority ejemplo_model ejemplo_loads ''constitucion''
        [(''escritura'', [\<lparr>filename = ''a.pdf'', fecha = ''05-03-2018'', version = 1\<rparr>])] ejemplo_ocr
      = Inr [(''razon_social'', JStr ''Otra''), (''rut'', JStr ''76.154.106-4'')]"
  using ejemplo_seccion_two ejemplo_seccion_one
  by (simp add: reconciler_example_defs)

subsection \<open>Replies that are no JSON object\<close>

lemma llm_json_malformed: "malformed jl (model p) \<Longrightarrow> llm_json model jl p = Inr []"
  by (auto simp: malformed_def llm_json_def split: completion.splits option.splits json.splits)

lemma with_date_priority_empty_latest:
  assumes "\<forall>d \<in> set (escrituras_de versioning). el (ocr_text_by_filename ocr (filename d)) = Inr []"
  shows "with_date_priority el ex vacio versioning ocr = Inr vacio
    \<or> with_date_priority el ex vacio versioning ocr = Inr []"
proof (cases "sorted_reverse (\<lambda>x. rg_parse_fecha (fecha x)) (escrituras_de versioning)")
  case Nil
  then have "escrituras_de versioning = []"
    by (simp add: sorted_reverse_Nil)
  then show ?thesis
    by (simp add: with_date_priority_def)
next
  case (Cons latest older)
  then have "latest \<in> set (escrituras_de versioning)"
    by (metis list.set_intros(1) set_sorted_reverse)
  with assms have "el (ocr_text_by_filename ocr (filename latest)) = Inr []"
    by blast
  with with_date_priority_latest [OF Cons, where el = el and ex = ex and vacio = vacio and ocr = ocr]
  show ?thesis
    by (simp add: get_empty_fields_def rellenar_done)
qed

text \<open>
  Claim C8, as the code has it. When the reply of the model is no JSON object for every
  document of the chain, reconciliation raises nothing and no field gets a value: the
  section is the empty dictionary, so the fields asked for are not in it, and the header
  is a dictionary under \<^verbatim>\<open>informesociedad\<close> in which no field has a value.
\<close>

theorem malformed_replies_give_no_value:
  assumes "\<forall>d \<in> set (escrituras_de versioning).
      malformed jl (model (Secciones_prompt seccion (take 16000 (ocr_text_by_filename ocr (filename d)))))
      \<and> malformed jl (model (Encabezado_prompt (ocr_text_by_filename ocr (filename d))))"
  shows "extract_section_with_date_priority model jl seccion versioning ocr = Inr []
    \<and> (\<exists>enc. extract_encabezado_with_date_priority model jl versioning ocr
                = Inr [(''informesociedad'', JObj enc)]
             \<and> (\<forall>f. sin_valor enc f))"
proof -
  have "\<forall>d \<in> set (escrituras_de versioning).
      extract_section_from_text model jl seccion (ocr_text_by_filename ocr (filename d)) = Inr []"
    using assms by (simp add: extract_section_from_text_def llm_json_malformed)
  from with_date_priority_empty_latest [OF this,
      where ex = "extract_section_from_text model jl seccion" and vacio = "[]"]
  have sec: "extract_section_with_date_priority model jl seccion versioning ocr = Inr []"
    by (auto simp: extract_section_with_date_priority_def)
  have "\<forall>d \<in> set (escrituras_de versioning).
      extract_encabezado model jl ''items'' (ocr_text_by_filename ocr (filename d)) = Inr []"
    using assms by (simp add: extract_encabezado_def llm_json_malformed)
  from with_date_priority_empty_latest [OF this,
      where ex = "extract_encabezado model jl ''get''" and vacio = encabezado_vacio]
  have "extract_encabezado_with_date_priority model jl versioning ocr
          = Inr [(''informesociedad'', JObj encabezado_vacio)]
      \<or> extract_encabezado_with_date_priority model jl versioning ocr
          = Inr [(''informesociedad'', JObj [])]"
    by (auto simp: extract_encabezado_with_date_priority_def)
  moreover have "\<forall>f. sin_valor encabezado_vacio f" "\<forall>f. sin_valor [] f"
    by (simp_all add: sin_valor_def encabezado_vacio_def is_empty_value_def strip_def)
  ultimately show ?thesis
    using sec by blast
qed

theorem malformed_replies_give_no_value_witness:
  "malformed ejemplo_loads (ejemplo_model (Secciones_prompt ''capital_social'' (take 16000 ''no es json'')))
   \<and> malformed ejemplo_loads (ejemplo_model (Encabezado_prompt ''no es json''))
   \<and> extract_section_with_date_priority ejemplo_model ejemplo_loads ''capital_social''
        [(''escritura'', [\<lparr>filename = ''x.pdf'', fecha = ''05-03-2018'', version = 1\<rparr>])]
        [\<lparr>o_filename = ''x.pdf'', o_text = ''no es json''\<rparr>]
      = Inr []"
proof -
  let ?v = "[(''escritura'', [\<lparr>filename = ''x.pdf'', fecha = ''05-03-2018'', version = 1\<rparr>])]"
  let ?ocr = "[\<lparr>o_filename = ''x.pdf'', o_text = ''no es json''\<rparr>]"
  have m: "malformed ejemplo_loads (ejemplo_model (Secciones_prompt ''capital_social'' (take 16000 ''no es json'')))"
    "malformed ejemplo_loads (ejemplo_model (Encabezado_prompt ''no es json''))"
    by (simp_all add: malformed_def ejemplo_model_def ejemplo_loads_def)
  have t: "ocr_text_by_filename ?ocr ''x.pdf'' = ''no es json''"
    by (simp add: ocr_text_by_filename_def ocr_index_def)
  have "\<forall>d \<in> set (escrituras_de ?v).
      malformed ejemplo_loads (ejemplo_model (Secciones_prompt ''capital_social''
         (take 16000 (ocr_text_by_filename ?ocr (filename d)))))
      \<and> malformed ejemplo_loads (ejemplo_model (Encabezado_prompt (ocr_text_by_filename ?ocr (filename d))))"
    using m by (simp add: escrituras_de_def t)
  from malformed_replies_give_no_value [OF this] m show ?thesis
    by blast
qed

text \<open>
  The claim has the record hold every requested field, with an empty value. The section
  \<^verbatim>\<open>capital_social\<close> asks for \<^verbatim>\<open>capital_suscrito\<close>; after a reply that is no JSON the
  record returned is the empty dictionary, which has no such field, and the header has no
  field either.
\<close>

theorem malformed_reply_record_lacks_fields_counterexample:
  "malformed ejemplo_loads (ejemplo_model (Secciones_prompt ''capital_social'' (take 16000 ''no es json'')))
   \<and> extract_section_with_date_priority ejemplo_model ejemplo_loads ''capital_social''
        [(''escritura'', [\<lparr>filename = ''x.pdf'', fecha = ''05-03-2018'', version = 1\<rparr>])]
        [\<lparr>o_filename = ''x.pdf'', o_text = ''no es json''\<rparr>]
      = Inr []
   \<and> map_of ([] :: pydict) ''capital_suscrito'' = None
   \<and> extract_encabezado_with_date_priority ejemplo_model ejemplo_loads
        [(''escritura'', [\<lparr>filename = ''x.pdf'', fecha = ''05-03-2018'', version = 1\<rparr>])]
        [\<lparr>o_filename = ''x.pdf'', o_text = ''no es json''\<rparr>]
      = Inr [(''informesociedad'', JObj [])]"
proof -
  have s: "sorted_reverse (\<lambda>x. rg_parse_fecha (fecha x))
     (escrituras_de [(''escritura'', [\<lparr>filename = ''x.pdf'', fecha = ''05-03-2018'', version = 1\<rparr>])])
   = \<lparr>filename = ''x.pdf'', fecha = ''05-03-2018'', version = 1\<rparr> # []"
    by code_simp
  show ?thesis
    using with_date_priority_latest [OF s, of
        "extract_section_from_text ejemplo_model ejemplo_loads ''capital_social''"
        "extract_section_from_text ejemplo_model ejemplo_loads ''capital_social''" "[]"
        "[\<lparr>o_filename = ''x.pdf'', o_text = ''no es json''\<rparr>]"]
      with_date_priority_latest [OF s, of
        "extract_encabezado ejemplo_model ejemplo_loads ''items''"
        "extract_encabezado ejemplo_model ejemplo_loads ''get''" encabezado_vacio
        "[\<lparr>o_filename = ''x.pdf'', o_text = ''no es json''\<rparr>]"]
    by (simp add: malformed_def reconciler_example_defs)
qed

subsection \<open>Fields never regress\<close>







text \<open>
  \<^verbatim>\<open>_get_empty_fields\<close> lists the fields of the record that are empty; a field that the
  record of the newest document does not have is not on the list, and no older document is
  asked for it.
\<close>

lemma missing_key_not_backfilled:
  "extract_section_with_date_priority ejemplo_model ejemplo_loads ''constitucion''
     [(''escritura'',
       [\<lparr>filename = ''a.pdf'', fecha = ''05-03-2018'', version = 1\<rparr>,
        \<lparr>filename = ''s.pdf'', fecha = ''05-03-2019'', version = 2\<rparr>])]
     [\<lparr>o_filename = ''a.pdf'', o_text = ''rut''\<rparr>, \<lparr>o_filename = ''s.pdf'', o_text = ''sin rut''\<rparr>]
   = Inr [(''razon_social'', JStr ''Acme Corp'')]
   \<and> extract_section_from_text ejemplo_model ejemplo_loads ''constitucion'' ''rut''
   = Inr [(''razon_social'', JStr ''Otra''), (''rut'', JStr ''76.154.106-4'')]"
proof -
  have s: "sorted_reverse (\<lambda>x. rg_parse_fecha (fecha x))
     (escrituras_de [(''escritura'',
       [\<lparr>filename = ''a.pdf'', fecha = ''05-03-2018'', version = 1\<rparr>,
        \<lparr>filename = ''s.pdf'', fecha = ''05-03-2019'', version = 2\<rparr>])])
   = \<lparr>filename = ''s.pdf'', fecha = ''05-03-2019'', version = 2\<rparr>
     # [\<lparr>filename = ''a.pdf'', fecha = ''05-03-2018'', version = 1\<rparr>]"
    by code_simp
  show ?thesis
    using with_date_priority_latest [OF s, of
        "extract_section_from_text ejemplo_model ejemplo_loads ''constitucion''"
        "extract_section_from_text ejemplo_model ejemplo_loads ''constitucion''" "[]"
        "[\<lparr>o_filename = ''a.pdf'', o_text = ''rut''\<rparr>, \<lparr>o_filename = ''s.pdf'', o_text = ''sin rut''\<rparr>]"]
    by (simp add: reconciler_example_defs)
qed

section \<open>Pipeline coordinator\<close>

subsection \<open>A failing stage\<close>










subsection \<open>The run of the graph\<close>

lemma error_stays_set:
  assumes "run_node ev n s = Inr s'" and "error s \<noteq> []"
  shows "error s' \<noteq> []"
proof (cases n)
  case Paso_1_ocr
  with assms show ?thesis
    by (auto simp: paso_1_ocr_def split: sum.splits)
next
  case Paso_2_versioning
  with assms show ?thesis
    by (auto simp: paso_2_versioning_def split: sum.splits if_splits)
next
  case Paso_3_vectorization
  with assms show ?thesis
    by (auto simp: paso_3_vectorization_def and_then_def split: sum.splits if_splits)
next
  case Paso_4_escritura_comparison
  with assms show ?thesis
    by (auto simp: paso_4_escritura_comparison_def split: sum.splits if_splits)
next
  case Paso_5_legalizacion
  with assms show ?thesis
    by (auto simp: paso_5_legalizacion_def split: sum.splits if_splits)
next
  case Paso_8_report_generation
  with assms show ?thesis
    by (auto simp: paso_8_report_generation_def split: sum.splits if_splits)
qed

lemma invoke_from_end:
  "invoke_from ev Paso_8_report_generation s visited =
     (run_node ev Paso_8_report_generation s, visited @ [Paso_8_report_generation])"
  by (simp split: sum.splits)

lemma invoke_from_step:
  assumes "next_node n = Some n'"
  shows "invoke_from ev n s visited =
     (case run_node ev n s of
        Inl e \<Rightarrow> (Inl e, visited @ [n])
      | Inr s' \<Rightarrow> invoke_from ev n' s' (visited @ [n]))"
  using assms by (subst invoke_from.simps) (simp split: sum.splits)

text \<open>
  The run from a node: when no exception leaves a stage, every node from there to the end
  has run, in the order of the edges, and an error that was set is still set.
\<close>

lemma invoke_from_runs_all:
  assumes "invoke_from ev n s visited = (Inr s', tr)"
  shows "tr = visited @ drop (5 - distance_to_end n)
              [Paso_1_ocr, Paso_2_versioning, Paso_3_vectorization,
               Paso_4_escritura_comparison, Paso_5_legalizacion, Paso_8_report_generation]
         \<and> (error s \<noteq> [] \<longrightarrow> error s' \<noteq> [])"
  using assms
proof (induction ev n s visited rule: invoke_from.induct)
  case (1 ev n state visited)
  show ?case
  proof (cases "run_node ev n state")
    case (Inl e)
    with "1.prems" show ?thesis
      by (subst (asm) invoke_from.simps) simp
  next
    case (Inr state')
    note kept = error_stays_set [OF Inr]
    show ?thesis
    proof (cases "next_node n")
      case None
      then have n: "n = Paso_8_report_generation"
        by (cases n) simp_all
      with "1.prems" Inr kept show ?thesis
        by (subst (asm) invoke_from.simps) auto
    next
      case (Some n')
      with "1.prems" Inr have run: "invoke_from ev n' state' (visited @ [n]) = (Inr s', tr)"
        by (subst (asm) invoke_from.simps) simp
      from "1.IH" [OF Inr Some run] kept
      have tr: "tr = (visited @ [n]) @ drop (5 - distance_to_end n')
              [Paso_1_ocr, Paso_2_versioning, Paso_3_vectorization,
               Paso_4_escritura_comparison, Paso_5_legalizacion, Paso_8_report_generation]"
        and err: "error state \<noteq> [] \<longrightarrow> error s' \<noteq> []"
        by blast+
      from Some have "[n] @ drop (5 - distance_to_end n')
              [Paso_1_ocr, Paso_2_versioning, Paso_3_vectorization,
               Paso_4_escritura_comparison, Paso_5_legalizacion, Paso_8_report_generation]
         = drop (5 - distance_to_end n)
              [Paso_1_ocr, Paso_2_versioning, Paso_3_vectorization,
               Paso_4_escritura_comparison, Paso_5_legalizacion, Paso_8_report_generation]"
        by (cases n) auto
      with tr err show ?thesis by simp
    qed
  qed
qed

text \<open>
  Claim C3, as the code has it. The edges of the graph are unconditional: in a run that no
  exception leaves, all six stages run, in their fixed order, whatever \<^verbatim>\<open>error\<close> holds.
  No stage sets \<^verbatim>\<open>error\<close> back to the empty string, so once an error is recorded
  there is an error in every later state and at the end of the run. Its message is not
  kept: a later stage whose precondition check fails writes its own message, whatever
  message was there.
\<close>

theorem every_stage_runs_and_error_stays:
  "(run_node ev n s = Inr s1 \<and> error s \<noteq> [] \<longrightarrow> error s1 \<noteq> [])
   \<and> (invoke ev s = (Inr s', tr) \<longrightarrow>
        tr = [Paso_1_ocr, Paso_2_versioning, Paso_3_vectorization,
              Paso_4_escritura_comparison, Paso_5_legalizacion, Paso_8_report_generation]
        \<and> (error s \<noteq> [] \<longrightarrow> error s' \<noteq> []))
   \<and> (ocr_results s = [] \<longrightarrow>
        run_node ev Paso_2_versioning s =
          Inr (s\<lparr>error := ''No hay resultados de OCR para versionar documentos''\<rparr>)
        \<and> run_node ev Paso_3_vectorization s =
          Inr (s\<lparr>error := ''Faltan resultados (OCR o versionado) para vectorizar''\<rparr>))
   \<and> (versioning_results s = [] \<longrightarrow>
        run_node ev Paso_4_escritura_comparison s =
          Inr (s\<lparr>error := ''No hay resultados de versionado para comparar''\<rparr>)
        \<and> run_node ev Paso_8_report_generation s =
          Inr (s\<lparr>error := ''No hay resultados de versionado para generar informe''\<rparr>))"
proof -
  have "tr = [Paso_1_ocr, Paso_2_versioning, Paso_3_vectorization,
              Paso_4_escritura_comparison, Paso_5_legalizacion, Paso_8_report_generation]
        \<and> (error s \<noteq> [] \<longrightarrow> error s' \<noteq> [])"
    if "invoke ev s = (Inr s', tr)"
    using invoke_from_runs_all [of ev Paso_1_ocr s "[]" s' tr] that
    by (simp add: invoke_def entry_point_def)
  moreover have "run_node ev Paso_2_versioning s =
          Inr (s\<lparr>error := ''No hay resultados de OCR para versionar documentos''\<rparr>)
        \<and> run_node ev Paso_3_vectorization s =
          Inr (s\<lparr>error := ''Faltan resultados (OCR o versionado) para vectorizar''\<rparr>)"
    if "ocr_results s = []"
    using that by (simp add: paso_2_versioning_def paso_3_vectorization_def)
  moreover have "run_node ev Paso_4_escritura_comparison s =
          Inr (s\<lparr>error := ''No hay resultados de versionado para comparar''\<rparr>)
        \<and> run_node ev Paso_8_report_generation s =
          Inr (s\<lparr>error := ''No hay resultados de versionado para generar informe''\<rparr>)"
    if "versioning_results s = []"
    using that by (simp add: paso_4_escritura_comparison_def paso_8_report_generation_def)
  ultimately show ?thesis
    using error_stays_set [of ev n s s1] by blast
qed

theorem every_stage_runs_and_error_stays_witness:
  "run_node ejemplo_env_sin_carpeta Paso_2_versioning
     ((create_initial_state ''c'')\<lparr>error := ''Error en PASO 1: Directorio no existe: data/c''\<rparr>)
     = Inr ((create_initial_state ''c'')
              \<lparr>error := ''No hay resultados de OCR para versionar documentos''\<rparr>)
   \<and> error ((create_initial_state ''c'')\<lparr>error := ''Error en PASO 1: Directorio no existe: data/c''\<rparr>)
       \<noteq> []
   \<and> error ((create_initial_state ''c'')
              \<lparr>error := ''No hay resultados de OCR para versionar documentos''\<rparr>) \<noteq> []
   \<and> invoke ejemplo_env_sin_carpeta
        ((create_initial_state ''c'')\<lparr>error := ''Error en PASO 1: Directorio no existe: data/c''\<rparr>)
     = (Inr ((create_initial_state ''c'')
               \<lparr>error := ''No hay resultados de versionado para generar informe''\<rparr>),
        [Paso_1_ocr, Paso_2_versioning, Paso_3_vectorization,
         Paso_4_escritura_comparison, Paso_5_legalizacion, Paso_8_report_generation])
   \<and> error ((create_initial_state ''c'')
              \<lparr>error := ''No hay resultados de versionado para generar informe''\<rparr>) \<noteq> []"
proof -
  let ?s = "(create_initial_state ''c'')\<lparr>error := ''Error en PASO 1: Directorio no existe: data/c''\<rparr>"
  let ?s2 = "(create_initial_state ''c'')\<lparr>error := ''No hay resultados de OCR para versionar documentos''\<rparr>"
  let ?s8 = "(create_initial_state ''c'')\<lparr>error := ''No hay resultados de versionado para generar informe''\<rparr>"
  let ?all = "[Paso_1_ocr, Paso_2_versioning, Paso_3_vectorization,
         Paso_4_escritura_comparison, Paso_5_legalizacion, Paso_8_report_generation]"
  have step: "run_node ejemplo_env_sin_carpeta Paso_2_versioning ?s = Inr ?s2"
    by (simp add: paso_2_versioning_def create_initial_state_def)
  have set: "error ?s \<noteq> []"
    by simp
  have run: "invoke ejemplo_env_sin_carpeta ?s = (Inr ?s8, ?all)"
    by (simp add: invoke_def entry_point_def invoke_from_step invoke_from_end
      paso_1_ocr_def paso_1_try_def paso_2_versioning_def paso_3_vectorization_def
      paso_4_escritura_comparison_def paso_5_legalizacion_def paso_8_report_generation_def
      ejemplo_env_sin_carpeta_def ejemplo_env_def and_then_def create_initial_state_def)
  from every_stage_runs_and_error_stays [of ejemplo_env_sin_carpeta Paso_2_versioning ?s ?s2 ?s8 ?all]
    step set run
  show ?thesis
    by blast
qed

lemma run_sin_carpeta:
  "invoke ejemplo_env_sin_carpeta (create_initial_state ''c'') =
     (Inr ((create_initial_state ''c'')
             \<lparr>error := ''No hay resultados de versionado para generar informe''\<rparr>),
      [Paso_1_ocr, Paso_2_versioning, Paso_3_vectorization,
       Paso_4_escritura_comparison, Paso_5_legalizacion, Paso_8_report_generation])"
  by (simp add: invoke_def entry_point_def invoke_from_step invoke_from_end
      paso_1_ocr_def paso_1_try_def paso_2_versioning_def paso_3_vectorization_def
      paso_4_escritura_comparison_def paso_5_legalizacion_def paso_8_report_generation_def
      ejemplo_env_sin_carpeta_def ejemplo_env_def and_then_def create_initial_state_def)

lemma paso_1_sin_carpeta:
  "paso_1_ocr ejemplo_env_sin_carpeta (create_initial_state ''c'') =
     Inr ((create_initial_state ''c'')
            \<lparr>error := ''Error en PASO 1: Directorio no existe: data/c''\<rparr>)"
  by (simp add: paso_1_ocr_def paso_1_try_def ejemplo_env_sin_carpeta_def ejemplo_env_def
      and_then_def create_initial_state_def path_join_def)

lemma run_vacio:
  "invoke ejemplo_env_vacio (create_initial_state ''c'') =
     (Inr ((create_initial_state ''c'')
             \<lparr>error := ''No hay resultados de versionado para generar informe''\<rparr>),
      [Paso_1_ocr, Paso_2_versioning, Paso_3_vectorization,
       Paso_4_escritura_comparison, Paso_5_legalizacion, Paso_8_report_generation])"
  by (simp add: invoke_def entry_point_def invoke_from_step invoke_from_end
      paso_1_ocr_def paso_1_try_def paso_2_versioning_def paso_3_vectorization_def
      paso_4_escritura_comparison_def paso_5_legalizacion_def paso_8_report_generation_def
      ejemplo_env_vacio_def ejemplo_env_def and_then_def create_initial_state_def)

lemma first_error_vacio:
  "paso_1_ocr ejemplo_env_vacio (create_initial_state ''c'') = Inr (create_initial_state ''c'')
   \<and> paso_2_versioning ejemplo_env_vacio (create_initial_state ''c'') =
     Inr ((create_initial_state ''c'')
            \<lparr>error := ''No hay resultados de OCR para versionar documentos''\<rparr>)"
  by (simp add: paso_1_ocr_def paso_1_try_def paso_2_versioning_def ejemplo_env_vacio_def
      ejemplo_env_def and_then_def create_initial_state_def)

text \<open>
  The claim lets the first error win and no stage run after it. In a run over a folder
  without documents, \<^verbatim>\<open>paso_1_ocr\<close> returns no OCR results, \<^verbatim>\<open>paso_2_versioning\<close>
  records the first error, the four later stages run all the same, and the error at the
  end of the run is the one \<^verbatim>\<open>paso_8_report_generation\<close> wrote over it. So it is in a
  run over a folder that is not there, where the first error is that of \<^verbatim>\<open>paso_1_ocr\<close>.
\<close>

theorem first_error_overwritten_counterexample:
  "paso_1_ocr ejemplo_env_vacio (create_initial_state ''c'') = Inr (create_initial_state ''c'')
   \<and> paso_2_versioning ejemplo_env_vacio (create_initial_state ''c'') =
     Inr ((create_initial_state ''c'')
            \<lparr>error := ''No hay resultados de OCR para versionar documentos''\<rparr>)
   \<and> invoke ejemplo_env_vacio (create_initial_state ''c'') =
     (Inr ((create_initial_state ''c'')
             \<lparr>error := ''No hay resultados de versionado para generar informe''\<rparr>),
      [Paso_1_ocr, Paso_2_versioning, Paso_3_vectorization,
       Paso_4_escritura_comparison, Paso_5_legalizacion, Paso_8_report_generation])
   \<and> ''No hay resultados de OCR para versionar documentos''
       \<noteq> ''No hay resultados de versionado para generar informe''
   \<and> paso_1_ocr ejemplo_env_sin_carpeta (create_initial_state ''c'') =
     Inr ((create_initial_state ''c'')
            \<lparr>error := ''Error en PASO 1: Directorio no existe: data/c''\<rparr>)
   \<and> invoke ejemplo_env_sin_carpeta (create_initial_state ''c'') =
     (Inr ((create_initial_state ''c'')
             \<lparr>error := ''No hay resultados de versionado para generar informe''\<rparr>),
      [Paso_1_ocr, Paso_2_versioning, Paso_3_vectorization,
       Paso_4_escritura_comparison, Paso_5_legalizacion, Paso_8_report_generation])"
  using first_error_vacio run_vacio paso_1_sin_carpeta run_sin_carpeta by simp

end
